theory Spec2Isabelle
  imports Main "HOL-Library.Sublist"
begin

section \<open>JavaScript values\<close>

text \<open>
  The values that \<^verbatim>\<open>JSON.parse\<close> produces and \<^verbatim>\<open>JSON.stringify\<close> consumes.
  Numbers are kept to the integers. \<^verbatim>\<open>undefined\<close> and \<^verbatim>\<open>null\<close> in an optional
  position are \<open>None\<close>.
\<close>

datatype json =
    JNull
  | JBool bool
  | JNumber int
  | JString string
  | JArray "json list"
  | JObject "(string \<times> json) list"

text \<open>JavaScript truthiness, as the conditions \<^verbatim>\<open>x ? a : b\<close>, \<^verbatim>\<open>x || y\<close> and
  \<^verbatim>\<open>if (x)\<close> of the source read it.\<close>

fun truthy :: "json \<Rightarrow> bool" where
  "truthy JNull = False"
| "truthy (JBool b) = b"
| "truthy (JNumber n) = (n \<noteq> 0)"
| "truthy (JString s) = (s \<noteq> [])"
| "truthy (JArray xs) = True"
| "truthy (JObject kvs) = True"

fun truthy_string :: "string option \<Rightarrow> bool" where
  "truthy_string None = False"
| "truthy_string (Some s) = (s \<noteq> [])"

fun truthy_number :: "int option \<Rightarrow> bool" where
  "truthy_number None = False"
| "truthy_number (Some n) = (n \<noteq> 0)"

text \<open>Everything the modelled code can throw.\<close>

datatype error =
    SQLiteError_CHECK_constraint_failed
  | SQLiteError_FULL
  | SyntaxError
  | TypeError
  | FileReadError

section \<open>The memory store (storage.ts)\<close>

text \<open>
  \<^verbatim>\<open>interface DatabaseRow\<close>: one row of the table \<^verbatim>\<open>memories\<close>. The fields carry
  the prefix \<open>r_\<close>, those of \<^verbatim>\<open>interface Memory\<close> the prefix \<open>m_\<close>.
  \<^verbatim>\<open>CURRENT_TIMESTAMP\<close> is an input of the model (\<open>now\<close>), a number of seconds.
\<close>

record DatabaseRow =
  r_id :: nat
  r_project_id :: "string option"
  r_content :: string
  r_type :: string
  r_source :: string
  r_tags :: "string option"
  r_metadata :: "string option"
  r_created_at :: nat
  r_updated_at :: nat

record Memory =
  m_id :: "nat option"
  m_projectId :: "string option"
  m_content :: string
  m_type :: string
  m_source :: string
  m_tags :: "json option"
  m_metadata :: "json option"
  m_createdAt :: "nat option"
  m_updatedAt :: "nat option"

text \<open>
  The backing store shared by every instance opened on the same file: the rows of
  \<^verbatim>\<open>memories\<close> in insertion order, and the counter that \<^verbatim>\<open>AUTOINCREMENT\<close> keeps
  in \<^verbatim>\<open>sqlite_sequence\<close> (the largest row id ever assigned).
\<close>

record database =
  rows :: "DatabaseRow list"
  seq :: nat

text \<open>The fields of a \<^verbatim>\<open>MemoryStore\<close> instance besides the database handle.\<close>

record MemoryStore =
  projectId :: "string option"
  globalMode :: bool

text \<open>\<^verbatim>\<open>MemoryStoreOptions\<close>, without the path of the file.\<close>

record MemoryStoreOptions =
  opt_projectId :: "string option"
  opt_globalMode :: "bool option"

text \<open>
  The constructor. \<open>resolved\<close> is what \<^verbatim>\<open>getProjectId()\<close> of context.ts returns or
  throws for the directory of the process; it is only looked at when the instance is
  not global and the option is absent or empty, as \<^verbatim>\<open>||\<close> evaluates it.
\<close>

definition new_MemoryStore :: "MemoryStoreOptions \<Rightarrow> error + string \<Rightarrow> error + MemoryStore" where
  "new_MemoryStore opts resolved =
     (let gm = (case opt_globalMode opts of Some b \<Rightarrow> b | None \<Rightarrow> False) in
      if gm then Inr \<lparr>projectId = None, globalMode = gm\<rparr>
      else if truthy_string (opt_projectId opts)
        then Inr \<lparr>projectId = opt_projectId opts, globalMode = gm\<rparr>
      else (case resolved of
              Inl e \<Rightarrow> Inl e
            | Inr p \<Rightarrow> Inr \<lparr>projectId = Some p, globalMode = gm\<rparr>))"

text \<open>The \<^verbatim>\<open>CHECK\<close> constraint of the column \<^verbatim>\<open>type\<close>.\<close>

definition type_check :: "string \<Rightarrow> bool" where
  "type_check t = (t \<in> set [''fact'', ''decision'', ''code'', ''config'', ''note''])"

text \<open>
  Row ids are signed 64-bit integers. The \<^verbatim>\<open>AUTOINCREMENT\<close> key gives a new row one
  more than the largest id ever assigned (the larger of the counter and the ids in the
  table); when that is already \<open>MAX_ROWID\<close> no id is left.
\<close>

definition MAX_ROWID :: nat where
  "MAX_ROWID = 9223372036854775807"

definition rowid_exhausted :: "database \<Rightarrow> bool" where
  "rowid_exhausted db = (MAX_ROWID \<le> fold max (map r_id (rows db)) (seq db))"

definition next_rowid :: "database \<Rightarrow> nat" where
  "next_rowid db = Suc (fold max (map r_id (rows db)) (seq db))"

text \<open>
  \<^verbatim>\<open>INSERT INTO memories\<close>. SQLite takes the new row id first: with no id left the
  statement fails with \<^verbatim>\<open>SQLITE_FULL\<close>, whatever the values are. Then the
  \<^verbatim>\<open>CHECK\<close> constraint is tested: a row that violates it makes the statement fail.
  A failed statement leaves the database as it was. Otherwise the row is stored with
  the new id and both timestamps, and the counter is set to the id.
\<close>

definition insert_memories ::
  "string option \<Rightarrow> string \<Rightarrow> string \<Rightarrow> string \<Rightarrow> string option \<Rightarrow> string option \<Rightarrow>
   nat \<Rightarrow> database \<Rightarrow> (error + nat) \<times> database" where
  "insert_memories pid c t src tgs md now db =
     (if rowid_exhausted db then (Inl SQLiteError_FULL, db)
      else if \<not> type_check t then (Inl SQLiteError_CHECK_constraint_failed, db)
      else
        (let i = next_rowid db;
             row = \<lparr>r_id = i, r_project_id = pid, r_content = c, r_type = t, r_source = src,
                    r_tags = tgs, r_metadata = md, r_created_at = now, r_updated_at = now\<rparr>
         in (Inr i, \<lparr>rows = rows db @ [row], seq = i\<rparr>)))"

text \<open>
  \<^verbatim>\<open>add\<close>. \<open>stringify\<close> is \<^verbatim>\<open>JSON.stringify\<close>. The result pairs what the call returns
  or throws with the database after it.
\<close>

definition add ::
  "(json \<Rightarrow> string) \<Rightarrow> MemoryStore \<Rightarrow> Memory \<Rightarrow> nat \<Rightarrow> database \<Rightarrow> (error + nat) \<times> database" where
  "add stringify s memory now db =
     (let pid = (if truthy_string (m_projectId memory) then m_projectId memory else projectId s)
      in insert_memories pid (m_content memory) (m_type memory) (m_source memory)
           (case m_tags memory of
              None \<Rightarrow> None
            | Some v \<Rightarrow> if truthy v then Some (stringify v) else None)
           (case m_metadata memory of
              None \<Rightarrow> None
            | Some v \<Rightarrow> if truthy v then Some (stringify v) else None)
           now db)"

text \<open>
  \<^verbatim>\<open>rowToMemory\<close>. \<open>parse\<close> is \<^verbatim>\<open>JSON.parse\<close>, \<open>None\<close> where it throws a
  \<^verbatim>\<open>SyntaxError\<close>. The tags are parsed before the metadata.
\<close>

definition rowToMemory :: "(string \<Rightarrow> json option) \<Rightarrow> DatabaseRow \<Rightarrow> error + Memory" where
  "rowToMemory parse row =
     (case (if truthy_string (r_tags row) then map_option parse (r_tags row) else None) of
        Some None \<Rightarrow> Inl SyntaxError
      | tg \<Rightarrow>
         (case (if truthy_string (r_metadata row) then map_option parse (r_metadata row) else None) of
            Some None \<Rightarrow> Inl SyntaxError
          | md \<Rightarrow>
             Inr \<lparr>m_id = Some (r_id row), m_projectId = r_project_id row,
                  m_content = r_content row, m_type = r_type row, m_source = r_source row,
                  m_tags = (case tg of Some v \<Rightarrow> v | None \<Rightarrow> None),
                  m_metadata = (case md of Some v \<Rightarrow> v | None \<Rightarrow> None),
                  m_createdAt = Some (r_created_at row),
                  m_updatedAt = Some (r_updated_at row)\<rparr>))"

text \<open>\<^verbatim>\<open>rows.map((row) => this.rowToMemory(row))\<close>: the first throw ends the call.\<close>

fun rowsToMemories :: "(string \<Rightarrow> json option) \<Rightarrow> DatabaseRow list \<Rightarrow> error + Memory list" where
  "rowsToMemories parse [] = Inr []"
| "rowsToMemories parse (r # rs) =
     (case rowToMemory parse r of
        Inl e \<Rightarrow> Inl e
      | Inr m \<Rightarrow>
         (case rowsToMemories parse rs of
            Inl e \<Rightarrow> Inl e
          | Inr ms \<Rightarrow> Inr (m # ms)))"

text \<open>
  The project condition that every operation appends to its statement:
  \<^verbatim>\<open>if (!this.globalMode && this.projectId) sql += ' AND project_id = ?'\<close>.
  A row whose \<^verbatim>\<open>project_id\<close> is \<^verbatim>\<open>NULL\<close> never satisfies the comparison.
\<close>

definition project_filter :: "MemoryStore \<Rightarrow> DatabaseRow \<Rightarrow> bool" where
  "project_filter s row =
     (if \<not> globalMode s \<and> truthy_string (projectId s)
      then r_project_id row = projectId s else True)"

text \<open>\<^verbatim>\<open>get\<close>: the first row with the id that passes the project condition.\<close>

definition get ::
  "(string \<Rightarrow> json option) \<Rightarrow> MemoryStore \<Rightarrow> nat \<Rightarrow> database \<Rightarrow> error + Memory option" where
  "get parse s i db =
     (case find (\<lambda>row. r_id row = i \<and> project_filter s row) (rows db) of
        None \<Rightarrow> Inr None
      | Some row \<Rightarrow>
         (case rowToMemory parse row of Inl e \<Rightarrow> Inl e | Inr m \<Rightarrow> Inr (Some m)))"

text \<open>
  SQLite's \<^verbatim>\<open>LIKE\<close> with no \<^verbatim>\<open>ESCAPE\<close>: in the pattern \<^verbatim>\<open>%\<close> matches any run of
  characters and \<^verbatim>\<open>_\<close> any one character; every other character matches itself,
  the letters A to Z and a to z without regard to case.
\<close>

definition lower_char :: "char \<Rightarrow> char" where
  "lower_char c =
     (case map_of (zip ''ABCDEFGHIJKLMNOPQRSTUVWXYZ'' ''abcdefghijklmnopqrstuvwxyz'') c of
        Some l \<Rightarrow> l
      | None \<Rightarrow> c)"

fun like :: "string \<Rightarrow> string \<Rightarrow> bool" where
  "like [] s = (s = [])"
| "like (p # ps) [] = (p = CHR ''%'' \<and> like ps [])"
| "like (p # ps) (c # cs) =
     (if p = CHR ''%'' then like ps (c # cs) \<or> like (p # ps) cs
      else (p = CHR ''_'' \<or> lower_char p = lower_char c) \<and> like ps cs)"

text \<open>The options of \<^verbatim>\<open>search\<close> and \<^verbatim>\<open>list\<close>; an absent options object has both
  fields absent.\<close>

record options =
  o_type :: "string option"
  o_limit :: "int option"

definition type_filter :: "options \<Rightarrow> DatabaseRow \<Rightarrow> bool" where
  "type_filter opts row =
     (if truthy_string (o_type opts) then Some (r_type row) = o_type opts else True)"

text \<open>
  \<^verbatim>\<open>ORDER BY created_at DESC\<close>, modelled as a stable sort: rows created in the same
  second stay in insertion order (SQL leaves their order open).
\<close>

definition order_by_created_at_desc :: "DatabaseRow list \<Rightarrow> DatabaseRow list" where
  "order_by_created_at_desc rs = sort_key (\<lambda>row. - int (r_created_at row)) rs"

text \<open>
  The \<^verbatim>\<open>LIMIT ?\<close> clause is appended under \<^verbatim>\<open>if (options?.limit)\<close>; SQLite reads a
  negative limit as no limit.
\<close>

definition limit_clause :: "options \<Rightarrow> DatabaseRow list \<Rightarrow> DatabaseRow list" where
  "limit_clause opts rs =
     (if truthy_number (o_limit opts)
      then (case o_limit opts of
              Some n \<Rightarrow> if n < 0 then rs else take (nat n) rs
            | None \<Rightarrow> rs)
      else rs)"

definition search_rows :: "MemoryStore \<Rightarrow> string \<Rightarrow> options \<Rightarrow> database \<Rightarrow> DatabaseRow list" where
  "search_rows s query opts db =
     limit_clause opts (order_by_created_at_desc
       (filter (\<lambda>row. like ([CHR ''%''] @ query @ [CHR ''%'']) (r_content row)
                       \<and> project_filter s row \<and> type_filter opts row) (rows db)))"

definition search ::
  "(string \<Rightarrow> json option) \<Rightarrow> MemoryStore \<Rightarrow> string \<Rightarrow> options \<Rightarrow> database \<Rightarrow> error + Memory list" where
  "search parse s query opts db = rowsToMemories parse (search_rows s query opts db)"

text \<open>\<^verbatim>\<open>list\<close>, here \<open>list_memories\<close>: the same statement without the condition on the
  content.\<close>

definition list_rows :: "MemoryStore \<Rightarrow> options \<Rightarrow> database \<Rightarrow> DatabaseRow list" where
  "list_rows s opts db =
     limit_clause opts (order_by_created_at_desc
       (filter (\<lambda>row. project_filter s row \<and> type_filter opts row) (rows db)))"

definition list_memories ::
  "(string \<Rightarrow> json option) \<Rightarrow> MemoryStore \<Rightarrow> options \<Rightarrow> database \<Rightarrow> error + Memory list" where
  "list_memories parse s opts db = rowsToMemories parse (list_rows s opts db)"

text \<open>\<^verbatim>\<open>delete\<close>: runs the statement and returns \<^verbatim>\<open>true\<close>.\<close>

definition delete :: "MemoryStore \<Rightarrow> nat \<Rightarrow> database \<Rightarrow> bool \<times> database" where
  "delete s i db =
     (True, db\<lparr>rows := filter (\<lambda>row. \<not> (r_id row = i \<and> project_filter s row)) (rows db)\<rparr>)"

text \<open>\<^verbatim>\<open>clear\<close>: counts the rows of the scope, deletes them, returns the count.\<close>

definition clear :: "MemoryStore \<Rightarrow> database \<Rightarrow> nat \<times> database" where
  "clear s db =
     (length (filter (project_filter s) (rows db)),
      db\<lparr>rows := filter (\<lambda>row. \<not> project_filter s row) (rows db)\<rparr>)"

text \<open>
  \<^verbatim>\<open>stats\<close>: \<^verbatim>\<open>byType\<close> has an entry for each type that \<^verbatim>\<open>GROUP BY\<close> finds in the
  scope; \<^verbatim>\<open>projectId\<close> is \<^verbatim>\<open>this.projectId || undefined\<close>.
\<close>

record stats_result =
  total :: nat
  byType :: "string \<Rightarrow> nat option"
  stats_projectId :: "string option"

definition stats :: "MemoryStore \<Rightarrow> database \<Rightarrow> stats_result" where
  "stats s db =
     \<lparr>total = length (filter (project_filter s) (rows db)),
      byType = (\<lambda>t. let n = length (filter (\<lambda>row. project_filter s row \<and> r_type row = t) (rows db))
                    in if n = 0 then None else Some n),
      stats_projectId = (if truthy_string (projectId s) then projectId s else None)\<rparr>"

text \<open>
  \<^verbatim>\<open>getAllProjects\<close>: the distinct identifiers that are not \<^verbatim>\<open>NULL\<close>, each with the
  number of its rows, the larger counts first.
\<close>

definition getAllProjects :: "database \<Rightarrow> (string \<times> nat) list" where
  "getAllProjects db =
     sort_key (\<lambda>(p, n). - int n)
       (map (\<lambda>p. (p, length (filter (\<lambda>row. r_project_id row = Some p) (rows db))))
            (remdups (List.map_filter r_project_id (rows db))))"

section \<open>The project context (context.ts)\<close>

text \<open>
  The file system at the time of the call: what is at each absolute path. A file that
  exists and cannot be read is \<open>Unreadable\<close>. Paths are POSIX paths.
\<close>

datatype entry = Directory | File string | Unreadable

type_synonym filesystem = "string \<Rightarrow> entry option"

definition existsSync :: "filesystem \<Rightarrow> string \<Rightarrow> bool" where
  "existsSync fs path = (fs path \<noteq> None)"

text \<open>\<^verbatim>\<open>readFileSync(path, 'utf-8')\<close> throws on everything but a readable file.\<close>

definition readFileSync :: "filesystem \<Rightarrow> string \<Rightarrow> error + string" where
  "readFileSync fs path =
     (case fs path of Some (File content) \<Rightarrow> Inr content | _ \<Rightarrow> Inl FileReadError)"

text \<open>
  \<^verbatim>\<open>path.resolve\<close> and \<^verbatim>\<open>path.join\<close> of Node, on POSIX. \<open>pcwd\<close> is
  \<^verbatim>\<open>process.cwd()\<close>, an absolute path. \<open>resolve\<close> takes its arguments from the
  right until one is absolute, splits at the separator, drops empty and \<^verbatim>\<open>.\<close>
  segments, lets \<^verbatim>\<open>..\<close> remove the segment before it (none above the root), and
  joins what is left behind a leading separator.
\<close>

fun split_from :: "char \<Rightarrow> string \<Rightarrow> string \<Rightarrow> string list" where
  "split_from d cur [] = [rev cur]"
| "split_from d cur (c # cs) =
     (if c = d then rev cur # split_from d [] cs else split_from d (c # cur) cs)"

definition split_on :: "char \<Rightarrow> string \<Rightarrow> string list" where
  "split_on d s = split_from d [] s"

fun normalizeString :: "string list \<Rightarrow> string list \<Rightarrow> string list" where
  "normalizeString res [] = rev res"
| "normalizeString res (seg # segs) =
     (if seg = [] \<or> seg = ''.'' then normalizeString res segs
      else if seg = ''..'' then normalizeString (tl res) segs
      else normalizeString (seg # res) segs)"

text \<open>The arguments are given last first, \<^verbatim>\<open>process.cwd()\<close> at the end.\<close>

fun resolvedPath :: "string list \<Rightarrow> string" where
  "resolvedPath [] = []"
| "resolvedPath (path # earlier) =
     (if path = [] then resolvedPath earlier
      else if hd path = CHR ''/'' then path @ ''/''
      else resolvedPath earlier @ path @ ''/'')"

definition resolve_segments :: "string \<Rightarrow> string list \<Rightarrow> string list" where
  "resolve_segments pcwd paths =
     normalizeString [] (split_on CHR ''/'' (resolvedPath (rev (pcwd # paths))))"

definition path_of :: "string list \<Rightarrow> string" where
  "path_of segs = (if segs = [] then ''/'' else concat (map (\<lambda>seg. CHR ''/'' # seg) segs))"

definition resolve :: "string \<Rightarrow> string list \<Rightarrow> string" where
  "resolve pcwd paths = path_of (resolve_segments pcwd paths)"

text \<open>\<^verbatim>\<open>join(a, b)\<close> for an absolute \<open>a\<close>.\<close>

definition join :: "string \<Rightarrow> string \<Rightarrow> string" where
  "join a b = path_of (normalizeString [] (split_on CHR ''/'' (a @ ''/'' @ b)))"

text \<open>
  \<^verbatim>\<open>findGitRoot\<close>. The loop variable \<^verbatim>\<open>currentPath\<close> always holds a result of
  \<^verbatim>\<open>resolve\<close>; it is kept as the list of its segments, so that the root
  \<^verbatim>\<open>resolve('/')\<close> is the empty list and \<^verbatim>\<open>resolve(currentPath, '..')\<close> drops the
  last segment (lemma \<open>resolve_parent\<close> below). The loop ends when it reaches the root,
  which it does not probe.
\<close>

function findGitRoot_walk :: "filesystem \<Rightarrow> string list \<Rightarrow> string option" where
  "findGitRoot_walk fs [] = None"
| "findGitRoot_walk fs (seg # segs) =
     (if existsSync fs (join (path_of (seg # segs)) ''.git'') then Some (path_of (seg # segs))
      else findGitRoot_walk fs (butlast (seg # segs)))"
  by pat_completeness auto
termination
  by (relation "measure (\<lambda>(fs, currentPath). length currentPath)") auto

definition findGitRoot :: "filesystem \<Rightarrow> string \<Rightarrow> string \<Rightarrow> string option" where
  "findGitRoot fs pcwd startPath = findGitRoot_walk fs (resolve_segments pcwd [startPath])"

text \<open>\<^verbatim>\<open>findPackageJson\<close>: the same walk; it returns the path of the manifest.\<close>

function findPackageJson_walk :: "filesystem \<Rightarrow> string list \<Rightarrow> string option" where
  "findPackageJson_walk fs [] = None"
| "findPackageJson_walk fs (seg # segs) =
     (if existsSync fs (join (path_of (seg # segs)) ''package.json'')
      then Some (join (path_of (seg # segs)) ''package.json'')
      else findPackageJson_walk fs (butlast (seg # segs)))"
  by pat_completeness auto
termination
  by (relation "measure (\<lambda>(fs, currentPath). length currentPath)") auto

definition findPackageJson :: "filesystem \<Rightarrow> string \<Rightarrow> string \<Rightarrow> string option" where
  "findPackageJson fs pcwd startPath = findPackageJson_walk fs (resolve_segments pcwd [startPath])"

text \<open>
  \<^verbatim>\<open>packageJson.name\<close>: reading a property of \<^verbatim>\<open>null\<close> throws a \<^verbatim>\<open>TypeError\<close>;
  a value that is not an object has no such property.
\<close>

fun get_name :: "json \<Rightarrow> error + json option" where
  "get_name JNull = Inl TypeError"
| "get_name (JObject kvs) = Inr (map_of kvs ''name'')"
| "get_name v = Inr None"

text \<open>The string that a template literal makes of a value.\<close>

function digits :: "nat \<Rightarrow> string" where
  "digits n =
     (if n < 10 then [char_of (48 + n)] else digits (n div 10) @ [char_of (48 + n mod 10)])"
  by pat_completeness auto
termination
  by (relation "measure id") auto

declare digits.simps [simp del]

fun join_comma :: "string list \<Rightarrow> string" where
  "join_comma [] = []"
| "join_comma [x] = x"
| "join_comma (x # y # ys) = x @ '','' @ join_comma (y # ys)"

fun js_toString :: "json \<Rightarrow> string" where
  "js_toString JNull = ''null''"
| "js_toString (JBool b) = (if b then ''true'' else ''false'')"
| "js_toString (JNumber n) = (if n < 0 then CHR ''-'' # digits (nat (- n)) else digits (nat n))"
| "js_toString (JString s) = s"
| "js_toString (JArray xs) = join_comma (map (\<lambda>x. if x = JNull then [] else js_toString x) xs)"
| "js_toString (JObject kvs) = ''[object Object]''"

text \<open>
  \<^verbatim>\<open>hashString\<close>: the first 16 characters of the digest. \<open>sha256\<close> is
  \<^verbatim>\<open>createHash('sha256').update(input).digest('hex')\<close>.
\<close>

definition hashString :: "(string \<Rightarrow> string) \<Rightarrow> string \<Rightarrow> string" where
  "hashString sha256 input = take 16 (sha256 input)"

text \<open>
  \<^verbatim>\<open>hashPath\<close>: \<^verbatim>\<open>resolve(path).toLowerCase().replace(/\\/g, '/')\<close>, then
  \<^verbatim>\<open>hashString\<close>. \<^verbatim>\<open>toLowerCase\<close> is modelled on the letters A to Z.
\<close>

definition toLowerCase :: "string \<Rightarrow> string" where
  "toLowerCase s = map lower_char s"

definition replace_backslashes :: "string \<Rightarrow> string" where
  "replace_backslashes s = map (\<lambda>c. if c = CHR 0x5C then CHR ''/'' else c) s"

definition hashPath :: "(string \<Rightarrow> string) \<Rightarrow> string \<Rightarrow> string \<Rightarrow> string" where
  "hashPath sha256 pcwd path =
     hashString sha256 (replace_backslashes (toLowerCase (resolve pcwd [path])))"

text \<open>
  \<^verbatim>\<open>detectProjectId\<close>. \<open>parse\<close> is \<^verbatim>\<open>JSON.parse\<close>. Nothing in the second strategy
  is inside a \<^verbatim>\<open>try\<close>, so what \<^verbatim>\<open>readFileSync\<close>, \<^verbatim>\<open>JSON.parse\<close> or the property
  access throw leaves the function.
\<close>

definition detectProjectId ::
  "(string \<Rightarrow> string) \<Rightarrow> (string \<Rightarrow> json option) \<Rightarrow> filesystem \<Rightarrow> string \<Rightarrow> string
   \<Rightarrow> error + string" where
  "detectProjectId sha256 parse fs pcwd cwd =
     (let gitRoot = findGitRoot fs pcwd cwd in
      if truthy_string gitRoot then Inr (hashPath sha256 pcwd (the gitRoot))
      else
        (let packageJsonPath = findPackageJson fs pcwd cwd in
         if truthy_string packageJsonPath then
           (case readFileSync fs (the packageJsonPath) of
              Inl e \<Rightarrow> Inl e
            | Inr content \<Rightarrow>
               (case parse content of
                  None \<Rightarrow> Inl SyntaxError
                | Some packageJson \<Rightarrow>
                   (case get_name packageJson of
                      Inl e \<Rightarrow> Inl e
                    | Inr name \<Rightarrow>
                       Inr (hashString sha256
                             ((case name of
                                 None \<Rightarrow> ''unknown''
                               | Some v \<Rightarrow> if truthy v then js_toString v else ''unknown'')
                              @ '':'' @ the packageJsonPath)))))
         else Inr (hashPath sha256 pcwd (resolve pcwd [cwd]))))"

text \<open>
  \<^verbatim>\<open>getProjectId\<close>, with the module's cache as state: a cached identifier is
  returned without looking at the file system; a computed one is stored.
\<close>

definition getProjectId ::
  "(string \<Rightarrow> string) \<Rightarrow> (string \<Rightarrow> json option) \<Rightarrow> filesystem \<Rightarrow> string
   \<Rightarrow> (string \<Rightarrow> string option) \<Rightarrow> string \<Rightarrow> (error + string) \<times> (string \<Rightarrow> string option)" where
  "getProjectId sha256 parse fs pcwd cache cwd =
     (if truthy_string (cache cwd) then (Inr (the (cache cwd)), cache)
      else
        (case detectProjectId sha256 parse fs pcwd cwd of
           Inl e \<Rightarrow> (Inl e, cache)
         | Inr detected \<Rightarrow> (Inr detected, cache(cwd \<mapsto> detected))))"

section \<open>Vocabulary of the properties\<close>

text \<open>A string contains another without regard to the case of the letters A to Z.\<close>

fun prefix_ci :: "string \<Rightarrow> string \<Rightarrow> bool" where
  "prefix_ci [] s = True"
| "prefix_ci (p # ps) [] = False"
| "prefix_ci (p # ps) (c # cs) = (lower_char p = lower_char c \<and> prefix_ci ps cs)"

fun contains_ci :: "string \<Rightarrow> string \<Rightarrow> bool" where
  "contains_ci q [] = (q = [])"
| "contains_ci q (c # cs) = (prefix_ci q (c # cs) \<or> contains_ci q cs)"

text \<open>What an instance finds for a query: the result of \<^verbatim>\<open>search\<close> with no options
  (nothing when the call throws).\<close>

definition no_options :: options where
  "no_options = \<lparr>o_type = None, o_limit = None\<rparr>"

definition visible ::
  "(string \<Rightarrow> json option) \<Rightarrow> MemoryStore \<Rightarrow> string \<Rightarrow> database \<Rightarrow> Memory set" where
  "visible parse s query db =
     (case search parse s query no_options db of Inl e \<Rightarrow> {} | Inr ms \<Rightarrow> set ms)"

text \<open>
  The directories that the walks probe, nearest first: the directory itself and its
  ancestors below the root, as lists of segments.
\<close>

definition ancestors :: "string list \<Rightarrow> string list list" where
  "ancestors segs = rev (tl (prefixes segs))"

text \<open>
  Segments as \<^verbatim>\<open>resolve\<close> leaves them: not empty, not \<^verbatim>\<open>.\<close> or \<^verbatim>\<open>..\<close>, without a
  separator.
\<close>

definition clean :: "string list \<Rightarrow> bool" where
  "clean segs =
     (\<forall>seg \<in> set segs. seg \<noteq> [] \<and> seg \<noteq> ''.'' \<and> seg \<noteq> ''..'' \<and> CHR ''/'' \<notin> set seg)"

text \<open>Successive calls of \<^verbatim>\<open>getProjectId\<close> in one process: each sees the cache that
  the calls before it left.\<close>

fun getProjectId_calls ::
  "(string \<Rightarrow> string) \<Rightarrow> (string \<Rightarrow> json option) \<Rightarrow> filesystem \<Rightarrow> string
   \<Rightarrow> (string \<Rightarrow> string option) \<Rightarrow> string list \<Rightarrow> (error + string) list" where
  "getProjectId_calls sha256 parse fs pcwd cache [] = []"
| "getProjectId_calls sha256 parse fs pcwd cache (cwd # cwds) =
     fst (getProjectId sha256 parse fs pcwd cache cwd)
       # getProjectId_calls sha256 parse fs pcwd
           (snd (getProjectId sha256 parse fs pcwd cache cwd)) cwds"

section \<open>Example data\<close>

text \<open>
  \<^verbatim>\<open>JSON.stringify\<close> and \<^verbatim>\<open>JSON.parse\<close> tabulated on the values and texts of the
  examples; a text outside the table stands for one that does not parse, and no
  value outside the table is serialized.
\<close>

definition stringify_by :: "(json \<times> string) list \<Rightarrow> json \<Rightarrow> string" where
  "stringify_by tbl v = (case map_of tbl v of Some s \<Rightarrow> s | None \<Rightarrow> ''null'')"

definition parse_by :: "(json \<times> string) list \<Rightarrow> string \<Rightarrow> json option" where
  "parse_by tbl s = map_of (map (\<lambda>(v, t). (t, v)) tbl) s"

definition example_json :: "(json \<times> string) list" where
  \<open>example_json =
     [(JArray [JString ''a'', JString ''b''], ''["a","b"]''),
      (JObject [(''k'', JNumber 1)], ''{"k":1}''),
      (JArray [], ''[]''),
      (JObject [], ''{}''),
      (JNull, ''null''),
      (JObject [(''name'', JString ''MyApp'')], ''{"name":"MyApp"}''),
      (JObject [(''name'', JString ''web'')], ''{"name":"web"}''),
      (JObject [(''name'', JString ''api'')], ''{"name":"api"}'')]\<close>

text \<open>The SHA-256 digests, in hexadecimal, of the strings that the examples hash.\<close>

definition digest_by :: "(string \<times> string) list \<Rightarrow> string \<Rightarrow> string" where
  "digest_by tbl input = (case map_of tbl input of Some d \<Rightarrow> d | None \<Rightarrow> [])"

definition example_sha256 :: "(string \<times> string) list" where
  "example_sha256 =
     [(''/'', ''8a5edab282632443219e051e4ade2d1d5bbc671c781051bf1437897cbdfea0f1''),
      (''/src'', ''56c9e1c4b5360a5b089004396ed37fe3a20f7c4f5954072098039789ba3ab68a''),
      (''/repo'', ''816fc349d3faebf805d1bed70fce7e14754cad5251c77dda31c414ee961a0bdd''),
      (''web:/repo/packages/web/package.json'',
       ''d3d3b7a2523fafde62dfbaa07de8a66e75324c2cae6f64a25db4d9c34071fa17'')]"

definition empty_database :: database where
  "empty_database = \<lparr>rows = [], seq = 0\<rparr>"

text \<open>A store whose id counter has reached the last id.\<close>

definition exhausted_database :: database where
  "exhausted_database = \<lparr>rows = [], seq = 9223372036854775807\<rparr>"

definition store_p1 :: MemoryStore where
  "store_p1 = \<lparr>projectId = Some ''p1'', globalMode = False\<rparr>"

definition store_p2 :: MemoryStore where
  "store_p2 = \<lparr>projectId = Some ''p2'', globalMode = False\<rparr>"

definition store_global :: MemoryStore where
  "store_global = \<lparr>projectId = None, globalMode = True\<rparr>"

definition example_memory ::
  "string option \<Rightarrow> string \<Rightarrow> string \<Rightarrow> json option \<Rightarrow> json option \<Rightarrow> Memory" where
  "example_memory pid c t tg md =
     \<lparr>m_id = None, m_projectId = pid, m_content = c, m_type = t, m_source = ''test'',
      m_tags = tg, m_metadata = md, m_createdAt = None, m_updatedAt = None\<rparr>"

definition example_row :: "nat \<Rightarrow> string option \<Rightarrow> string \<Rightarrow> string \<Rightarrow> DatabaseRow" where
  "example_row i pid c t =
     \<lparr>r_id = i, r_project_id = pid, r_content = c, r_type = t, r_source = ''test'',
      r_tags = None, r_metadata = None, r_created_at = 0, r_updated_at = 0\<rparr>"

text \<open>What \<^verbatim>\<open>rowToMemory\<close> makes of such a row.\<close>

definition example_result ::
  "nat \<Rightarrow> string option \<Rightarrow> string \<Rightarrow> string \<Rightarrow> json option \<Rightarrow> json option \<Rightarrow> Memory" where
  "example_result i pid c t tg md =
     \<lparr>m_id = Some i, m_projectId = pid, m_content = c, m_type = t, m_source = ''test'',
      m_tags = tg, m_metadata = md, m_createdAt = Some 0, m_updatedAt = Some 0\<rparr>"

text \<open>A repository at \<^verbatim>\<open>/repo\<close> with two packages.\<close>

definition monorepo_fs :: filesystem where
  \<open>monorepo_fs = map_of
     [(''/repo/.git'', Directory),
      (''/repo/packages/web/package.json'', File ''{"name":"web"}''),
      (''/repo/packages/api/package.json'', File ''{"name":"api"}'')]\<close>

text \<open>The same packages before the repository is initialized.\<close>

definition packages_only_fs :: filesystem where
  \<open>packages_only_fs = map_of
     [(''/repo/packages/web/package.json'', File ''{"name":"web"}''),
      (''/repo/packages/api/package.json'', File ''{"name":"api"}'')]\<close>

text \<open>The marker in the root directory only.\<close>

definition root_marker_fs :: filesystem where
  "root_marker_fs = map_of [(''/.git'', Directory)]"

text \<open>Manifests that cannot be used, and one whose name and path have capitals.\<close>

definition broken_manifest_fs :: filesystem where
  \<open>broken_manifest_fs = map_of
     [(''/proj/package.json'', File ''{''),
      (''/locked/package.json'', Unreadable),
      (''/dir/package.json'', Directory),
      (''/nil/package.json'', File ''null'')]\<close>

definition capitals_fs :: filesystem where
  \<open>capitals_fs = map_of [(''/Proj/package.json'', File ''{"name":"MyApp"}'')]\<close>

section \<open>Lemmas about the store\<close>

lemma fold_max_ge: "(a::nat) \<le> fold max xs a"
  by (induction xs arbitrary: a) (auto intro: order_trans[OF max.cobounded2])

lemma fold_max_mem: "x \<in> set xs \<Longrightarrow> (x::nat) \<le> fold max xs a"
proof (induction xs arbitrary: a)
  case Nil
  then show ?case by simp
next
  case (Cons y ys)
  then show ?case
    using fold_max_ge[of "max y a" ys] by auto
qed

text \<open>
  An instance constructed with a project identifier that is not empty, and without
  global mode, is scoped to that identifier; a global instance has none. The resolver
  is not consulted in either case.
\<close>

lemma new_MemoryStore_scoped:
  "p \<noteq> [] \<Longrightarrow>
   new_MemoryStore \<lparr>opt_projectId = Some p, opt_globalMode = None\<rparr> resolved
     = Inr \<lparr>projectId = Some p, globalMode = False\<rparr>"
  by (simp add: new_MemoryStore_def)

lemma new_MemoryStore_global:
  "new_MemoryStore \<lparr>opt_projectId = pid, opt_globalMode = Some True\<rparr> resolved
     = Inr \<lparr>projectId = None, globalMode = True\<rparr>"
  by (simp add: new_MemoryStore_def)

text \<open>The id that \<^verbatim>\<open>AUTOINCREMENT\<close> assigns is larger than every id in the table.\<close>

lemma rowid_fresh: "row \<in> set (rows db) \<Longrightarrow> r_id row < next_rowid db"
  unfolding next_rowid_def
  using fold_max_mem[of "r_id row" "map r_id (rows db)" "seq db"]
  by (simp add: less_Suc_eq_le)

lemma find_None_fresh:
  "find (\<lambda>row. r_id row = next_rowid db \<and> P row) (rows db) = None"
  by (auto simp: find_None_iff dest: rowid_fresh)

lemma find_append_last:
  "find P (xs @ [y]) =
     (case find P xs of None \<Rightarrow> (if P y then Some y else None) | Some x \<Rightarrow> Some x)"
  by (induction xs) auto

lemma filter_id_conv: "(\<And>x. x \<in> set xs \<Longrightarrow> P x) \<Longrightarrow> filter P xs = xs"
  by (induction xs) auto

text \<open>What a successful \<^verbatim>\<open>add\<close> does to the database.\<close>

lemma add_Inr:
  assumes "add stringify s memory now db = (Inr i, db')"
  shows "i = next_rowid db \<and> seq db' = i \<and>
         (\<exists>row. rows db' = rows db @ [row] \<and> r_id row = i \<and>
            r_project_id row =
              (if truthy_string (m_projectId memory) then m_projectId memory else projectId s) \<and>
            r_content row = m_content memory \<and> r_type row = m_type memory \<and>
            r_tags row =
              (case m_tags memory of
                 None \<Rightarrow> None
               | Some v \<Rightarrow> if truthy v then Some (stringify v) else None) \<and>
            r_metadata row =
              (case m_metadata memory of
                 None \<Rightarrow> None
               | Some v \<Rightarrow> if truthy v then Some (stringify v) else None))"
  using assms by (auto simp: add_def insert_memories_def Let_def split: if_splits)


text \<open>An id that \<^verbatim>\<open>add\<close> returns is a signed 64-bit row id.\<close>

lemma add_Inr_bounded:
  "add stringify s memory now db = (Inr i, db') \<Longrightarrow> 0 < i \<and> i \<le> MAX_ROWID"
  by (auto simp: add_def insert_memories_def Let_def next_rowid_def rowid_exhausted_def
      split: if_splits)

lemma set_map_filter: "set (List.map_filter f xs) = {p. Some p \<in> f ` set xs}"
  by (induction xs) (auto simp: map_filter_simps split: option.splits)

lemma getAllProjects_ids:
  "fst ` set (getAllProjects db) = {p. Some p \<in> r_project_id ` set (rows db)}"
proof -
  have "fst ` set (getAllProjects db) = set (List.map_filter r_project_id (rows db))"
    by (simp add: getAllProjects_def image_image)
  then show ?thesis by (simp add: set_map_filter)
qed

lemma rowsToMemories_set:
  "rowsToMemories parse rs = Inr ms \<Longrightarrow>
   set ms = {m. \<exists>r \<in> set rs. rowToMemory parse r = Inr m}"
proof (induction rs arbitrary: ms)
  case Nil
  then show ?case by auto
next
  case (Cons r rs)
  then obtain m ms' where m: "rowToMemory parse r = Inr m"
      "rowsToMemories parse rs = Inr ms'" "ms = m # ms'"
    by (auto split: sum.splits)
  then have "set ms' = {m. \<exists>r \<in> set rs. rowToMemory parse r = Inr m}"
    using Cons.IH by blast
  then show ?case using m by auto
qed

lemma rowsToMemories_all:
  "rowsToMemories parse rs = Inr ms \<Longrightarrow> r \<in> set rs \<Longrightarrow> \<exists>m. rowToMemory parse r = Inr m"
  by (induction rs arbitrary: ms) (auto split: sum.splits)

lemma rowsToMemories_total:
  "(\<And>r. r \<in> set rs \<Longrightarrow> \<exists>m. rowToMemory parse r = Inr m) \<Longrightarrow>
   \<exists>ms. rowsToMemories parse rs = Inr ms"
proof (induction rs)
  case Nil
  then show ?case by simp
next
  case (Cons r rs)
  then obtain m where "rowToMemory parse r = Inr m" by force
  moreover obtain ms where "rowsToMemories parse rs = Inr ms" using Cons by force
  ultimately show ?case by simp
qed

lemma rowToMemory_fields:
  "rowToMemory parse r = Inr m \<Longrightarrow>
     m_id m = Some (r_id r) \<and> m_projectId m = r_project_id r \<and> m_content m = r_content r
     \<and> m_type m = r_type r \<and> m_source m = r_source r"
  by (auto simp: rowToMemory_def split: option.splits if_splits)


lemma list_rows_set:
  "o_limit opts = None \<Longrightarrow>
   set (list_rows s opts db) =
     {row \<in> set (rows db). project_filter s row \<and> type_filter opts row}"
  by (auto simp: list_rows_def limit_clause_def order_by_created_at_desc_def)

lemma search_rows_set:
  "o_limit opts = None \<Longrightarrow>
   set (search_rows s query opts db) =
     {row \<in> set (rows db). like ([CHR ''%''] @ query @ [CHR ''%'']) (r_content row)
        \<and> project_filter s row \<and> type_filter opts row}"
  by (auto simp: search_rows_def limit_clause_def order_by_created_at_desc_def)

subsection \<open>The pattern of \<^verbatim>\<open>search\<close> without wildcards\<close>

lemma prefix_ci_iff: "prefix_ci q s \<longleftrightarrow> (\<exists>v. map lower_char s = map lower_char q @ v)"
  by (induction q s rule: prefix_ci.induct) auto

text \<open>\<open>contains_ci\<close> is containment as a substring, after lowering both strings.\<close>

lemma contains_ci_iff:
  "contains_ci q s \<longleftrightarrow> (\<exists>u v. map lower_char s = u @ map lower_char q @ v)"
proof (induction s)
  case Nil
  then show ?case by auto
next
  case (Cons c cs)
  show ?case
  proof
    assume "contains_ci q (c # cs)"
    then consider "prefix_ci q (c # cs)" | "contains_ci q cs" by auto
    then show "\<exists>u v. map lower_char (c # cs) = u @ map lower_char q @ v"
    proof cases
      case 1
      then obtain v where "map lower_char (c # cs) = map lower_char q @ v"
        unfolding prefix_ci_iff by blast
      then have "map lower_char (c # cs) = [] @ map lower_char q @ v" by simp
      then show ?thesis by blast
    next
      case 2
      then obtain u v where "map lower_char cs = u @ map lower_char q @ v"
        using Cons.IH by blast
      then have "map lower_char (c # cs) = (lower_char c # u) @ map lower_char q @ v" by simp
      then show ?thesis by blast
    qed
  next
    assume "\<exists>u v. map lower_char (c # cs) = u @ map lower_char q @ v"
    then obtain u v where uv: "map lower_char (c # cs) = u @ map lower_char q @ v" by blast
    show "contains_ci q (c # cs)"
    proof (cases u)
      case Nil
      then have "prefix_ci q (c # cs)" unfolding prefix_ci_iff using uv by auto
      then show ?thesis by simp
    next
      case (Cons a u')
      then have "map lower_char cs = u' @ map lower_char q @ v" using uv by simp
      then have "contains_ci q cs" using Cons.IH by blast
      then show ?thesis by simp
    qed
  qed
qed

lemma like_percent: "like [CHR ''%''] s"
  by (induction s) auto

lemma like_literal_prefix:
  "CHR ''%'' \<notin> set q \<Longrightarrow> CHR ''_'' \<notin> set q \<Longrightarrow> like (q @ [CHR ''%'']) s = prefix_ci q s"
proof (induction q s rule: prefix_ci.induct)
  case (1 s)
  then show ?case by (simp add: like_percent)
next
  case (2 p ps)
  then show ?case by auto
next
  case (3 p ps c cs)
  then show ?case by auto
qed

lemma like_literal:
  assumes "CHR ''%'' \<notin> set q" "CHR ''_'' \<notin> set q"
  shows "like ([CHR ''%''] @ q @ [CHR ''%'']) s = contains_ci q s"
proof (induction s)
  case Nil
  show ?case using assms like_literal_prefix[OF assms, of "[]"] by (cases q) auto
next
  case (Cons c cs)
  have "like (CHR ''%'' # q @ [CHR ''%'']) (c # cs)
        = (like (q @ [CHR ''%'']) (c # cs) \<or> like (CHR ''%'' # q @ [CHR ''%'']) cs)"
    by simp
  then show ?case using Cons like_literal_prefix[OF assms, of "c # cs"] by simp
qed

subsection \<open>Views\<close>

text \<open>
  When a search of the global instance succeeds, every row it matched converts, and
  what an instance scoped to a project finds for the same query is the image of the
  matching rows of the project.
\<close>

lemma visible_scoped:
  assumes g: "globalMode g" and gs: "search parse g query no_options db = Inr gs"
  shows "visible parse \<lparr>projectId = Some p, globalMode = False\<rparr> query db
         = {m. \<exists>row \<in> set (rows db).
                 like ([CHR ''%''] @ query @ [CHR ''%'']) (r_content row)
                 \<and> project_filter \<lparr>projectId = Some p, globalMode = False\<rparr> row
                 \<and> rowToMemory parse row = Inr m}"
proof -
  let ?s = "\<lparr>projectId = Some p, globalMode = False\<rparr>"
  have all: "\<And>r. r \<in> set (search_rows ?s query no_options db) \<Longrightarrow>
                \<exists>m. rowToMemory parse r = Inr m"
  proof -
    fix r assume "r \<in> set (search_rows ?s query no_options db)"
    then have "r \<in> set (search_rows g query no_options db)"
      using g by (simp add: search_rows_set no_options_def project_filter_def)
    then show "\<exists>m. rowToMemory parse r = Inr m"
      using gs rowsToMemories_all unfolding search_def by blast
  qed
  have "\<exists>ms. rowsToMemories parse (search_rows ?s query no_options db) = Inr ms"
    by (rule rowsToMemories_total) (rule all)
  then obtain ms where ms: "rowsToMemories parse (search_rows ?s query no_options db) = Inr ms"
    by blast
  have "visible parse ?s query db = set ms"
    by (simp add: visible_def search_def ms)
  also have "\<dots> = {m. \<exists>r \<in> set (search_rows ?s query no_options db). rowToMemory parse r = Inr m}"
    using rowsToMemories_set[OF ms] .
  also have "\<dots> = {m. \<exists>row \<in> set (rows db).
                 like ([CHR ''%''] @ query @ [CHR ''%'']) (r_content row)
                 \<and> project_filter ?s row \<and> rowToMemory parse row = Inr m}"
    by (auto simp: search_rows_set no_options_def type_filter_def)
  finally show ?thesis .
qed

text \<open>\<^verbatim>\<open>list\<close> is \<^verbatim>\<open>search\<close> for the empty query.\<close>

lemma list_is_search: "list_memories parse s opts db = search parse s [] opts db"
proof -
  have "\<And>c. like ([CHR ''%''] @ [] @ [CHR ''%'']) c"
  proof -
    fix c show "like ([CHR ''%''] @ [] @ [CHR ''%'']) c"
      by (induction c) (auto simp: like_percent)
  qed
  then show ?thesis
    by (simp add: list_memories_def search_def list_rows_def search_rows_def)
qed

lemma rowsToMemories_types:
  "rowsToMemories parse rs = Inr ms \<Longrightarrow> map m_type ms = map r_type rs"
proof (induction rs arbitrary: ms)
  case Nil
  then show ?case by auto
next
  case (Cons r rs)
  then obtain m ms' where m: "rowToMemory parse r = Inr m"
      "rowsToMemories parse rs = Inr ms'" "ms = m # ms'"
    by (auto split: sum.splits)
  then show ?case using Cons.IH[of ms'] rowToMemory_fields[OF m(1)] by simp
qed

lemma rowsToMemories_map:
  "rowsToMemories parse rs = Inr ms \<Longrightarrow> map (rowToMemory parse) rs = map Inr ms"
  by (induction rs arbitrary: ms) (auto split: sum.splits)

lemma rowsToMemories_length:
  "rowsToMemories parse rs = Inr ms \<Longrightarrow> length ms = length rs"
  by (induction rs arbitrary: ms) (auto split: sum.splits)

text \<open>\<^verbatim>\<open>stats\<close> counts what \<^verbatim>\<open>list\<close> returns.\<close>

lemma stats_counts_listing:
  assumes "list_memories parse s no_options db = Inr ms"
  shows "total (stats s db) = length ms
         \<and> (\<forall>t. byType (stats s db) t
                = (if filter (\<lambda>m. m_type m = t) ms = [] then None
                   else Some (length (filter (\<lambda>m. m_type m = t) ms))))"
proof -
  let ?rs = "filter (project_filter s) (rows db)"
  have ty: "map m_type ms = map r_type (list_rows s no_options db)"
    using assms rowsToMemories_types unfolding list_memories_def by blast
  have lr: "list_rows s no_options db = order_by_created_at_desc ?rs"
    by (simp add: list_rows_def limit_clause_def type_filter_def no_options_def)
  have len: "length ms = length ?rs"
    using arg_cong[OF ty, of length] by (simp add: lr order_by_created_at_desc_def)
  have cnt: "\<And>t. length (filter (\<lambda>m. m_type m = t) ms)
                 = length (filter (\<lambda>row. project_filter s row \<and> r_type row = t) (rows db))"
  proof -
    fix t
    have "length (filter (\<lambda>m. m_type m = t) ms) = length (filter (\<lambda>x. x = t) (map m_type ms))"
      by (simp add: filter_map comp_def)
    also have "\<dots> = length (filter (\<lambda>row. r_type row = t) (order_by_created_at_desc ?rs))"
      by (simp add: ty lr filter_map comp_def)
    also have "\<dots> = length (filter (\<lambda>row. r_type row = t) ?rs)"
      by (simp add: order_by_created_at_desc_def filter_sort)
    also have "\<dots> = length (filter (\<lambda>row. project_filter s row \<and> r_type row = t) (rows db))"
      by (simp add: conj_commute)
    finally show "length (filter (\<lambda>m. m_type m = t) ms)
                 = length (filter (\<lambda>row. project_filter s row \<and> r_type row = t) (rows db))" .
  qed
  show ?thesis
    by (simp add: stats_def len cnt[symmetric] Let_def)
qed

section \<open>Lemmas about paths and the walk\<close>

lemma split_from_skip:
  "d \<notin> set s \<Longrightarrow> split_from d cur (s @ w) = split_from d (rev s @ cur) w"
  by (induction s arbitrary: cur) auto

lemma split_from_plain: "d \<notin> set s \<Longrightarrow> split_from d cur s = [rev cur @ s]"
  by (induction s arbitrary: cur) auto

lemma split_from_segments:
  "(\<forall>seg \<in> set segs. d \<notin> set seg) \<Longrightarrow>
   split_from d cur (concat (map (\<lambda>seg. d # seg) segs) @ d # rest)
     = rev cur # segs @ split_from d [] rest"
proof (induction segs arbitrary: cur)
  case Nil
  then show ?case by simp
next
  case (Cons s ss)
  have "split_from d cur (concat (map (\<lambda>seg. d # seg) (s # ss)) @ d # rest)
        = rev cur # split_from d [] (s @ (concat (map (\<lambda>seg. d # seg) ss) @ d # rest))"
    by simp
  also have "\<dots> = rev cur # split_from d (rev s) (concat (map (\<lambda>seg. d # seg) ss) @ d # rest)"
    using Cons.prems by (simp add: split_from_skip)
  also have "\<dots> = rev cur # (s # ss @ split_from d [] rest)"
    using Cons.IH[of "rev s"] Cons.prems by simp
  finally show ?case by simp
qed

lemma split_from_no_sep:
  "d \<notin> set cur \<Longrightarrow> \<forall>seg \<in> set (split_from d cur s). d \<notin> set seg"
proof (induction s arbitrary: cur)
  case Nil
  then show ?case by simp
next
  case (Cons c s)
  show ?case using Cons.IH[of "[]"] Cons.IH[of "c # cur"] Cons.prems by auto
qed

lemma normalizeString_clean_append:
  "clean segs \<Longrightarrow> normalizeString res (segs @ further) = normalizeString (rev segs @ res) further"
  by (induction segs arbitrary: res) (auto simp: clean_def)

lemma normalizeString_clean_result:
  "clean (rev res) \<Longrightarrow> (\<forall>seg \<in> set segs. CHR ''/'' \<notin> set seg) \<Longrightarrow>
   clean (normalizeString res segs)"
proof (induction segs arbitrary: res)
  case Nil
  then show ?case by simp
next
  case (Cons seg segs)
  have tl: "clean (rev (tl res))" using Cons.prems(1) by (cases res) (auto simp: clean_def)
  have cons: "seg \<noteq> [] \<Longrightarrow> seg \<noteq> ''.'' \<Longrightarrow> seg \<noteq> ''..'' \<Longrightarrow> clean (rev (seg # res))"
    using Cons.prems by (auto simp: clean_def)
  show ?case using Cons.IH[OF tl] Cons.IH[OF cons] Cons.IH[OF Cons.prems(1)] Cons.prems(2)
    by auto
qed

lemma resolve_segments_clean: "clean (resolve_segments pcwd paths)"
proof -
  have "clean (rev [])" by (simp add: clean_def)
  moreover have "\<forall>seg \<in> set (split_from CHR ''/'' [] (resolvedPath (rev (pcwd # paths)))).
                   CHR ''/'' \<notin> set seg"
    by (rule split_from_no_sep) simp
  ultimately show ?thesis
    unfolding resolve_segments_def split_on_def by (rule normalizeString_clean_result)
qed

lemma path_of_absolute: "path_of segs \<noteq> [] \<and> hd (path_of segs) = CHR ''/''"
  by (cases segs) (auto simp: path_of_def)

lemma split_path_of:
  "clean segs \<Longrightarrow>
   normalizeString [] (split_on CHR ''/'' (path_of segs @ CHR ''/'' # rest))
   = normalizeString (rev segs) (split_from CHR ''/'' [] rest)"
proof (cases segs)
  case Nil
  then show ?thesis by (simp add: path_of_def split_on_def)
next
  case (Cons s ss)
  assume c: "clean segs"
  then have "\<forall>seg \<in> set segs. CHR ''/'' \<notin> set seg" by (simp add: clean_def)
  then have "split_on CHR ''/'' (path_of segs @ CHR ''/'' # rest)
             = [] # segs @ split_from CHR ''/'' [] rest"
    using split_from_segments[of segs "CHR ''/''" "[]" rest] Cons
    by (simp add: path_of_def split_on_def)
  then show ?thesis using normalizeString_clean_append[OF c] by simp
qed

text \<open>
  On a resolved path, \<^verbatim>\<open>resolve(currentPath, '..')\<close> drops the last segment,
  \<^verbatim>\<open>resolve\<close> changes nothing, and \<^verbatim>\<open>join\<close> appends a name: the walk over the list of
  segments is the loop of the source.
\<close>

lemma resolve_parent:
  assumes "clean segs"
  shows "resolve_segments pcwd [path_of segs, ''..''] = butlast segs"
proof -
  have "resolvedPath (rev [pcwd, path_of segs, ''..'']) = path_of segs @ CHR ''/'' # ''../''"
    using path_of_absolute[of segs] by simp
  then have "resolve_segments pcwd [path_of segs, ''..'']
             = normalizeString (rev segs) (split_from CHR ''/'' [] ''../'')"
    unfolding resolve_segments_def using split_path_of[OF assms] by simp
  also have "\<dots> = rev (tl (rev segs))" by simp
  finally show ?thesis by (simp add: butlast_rev[symmetric] rev_swap)
qed

lemma resolve_resolved:
  assumes "clean segs"
  shows "resolve_segments pcwd [path_of segs] = segs"
proof -
  have "resolvedPath (rev [pcwd, path_of segs]) = path_of segs @ CHR ''/'' # []"
    using path_of_absolute[of segs] by simp
  then have "resolve_segments pcwd [path_of segs]
             = normalizeString (rev segs) (split_from CHR ''/'' [] [])"
    unfolding resolve_segments_def using split_path_of[OF assms] by simp
  then show ?thesis by simp
qed

lemma resolve_root: "resolve_segments pcwd [''/''] = []"
  by (simp add: resolve_segments_def split_on_def)

lemma join_child:
  assumes "clean segs" "clean [name]"
  shows "join (path_of segs) name = path_of (segs @ [name])"
proof -
  have "split_from CHR ''/'' [] name = [name]"
    using assms(2) by (simp add: split_from_plain clean_def)
  then have "normalizeString [] (split_on CHR ''/'' (path_of segs @ CHR ''/'' # name))
        = normalizeString (rev segs) [name]"
    using split_path_of[OF assms(1), of name] by simp
  also have "\<dots> = segs @ [name]" using assms(2) by (simp add: clean_def)
  finally show ?thesis by (simp add: join_def)
qed

text \<open>The walk returns the nearest directory below the root that has the marker.\<close>

lemma ancestors_Nil: "ancestors [] = []"
  by (simp add: ancestors_def)

lemma ancestors_step: "segs \<noteq> [] \<Longrightarrow> ancestors segs = segs # ancestors (butlast segs)"
proof (induction segs rule: rev_induct)
  case Nil
  then show ?case by simp
next
  case (snoc x xs)
  show ?case by (simp add: ancestors_def)
qed

lemma findGitRoot_walk_find:
  "findGitRoot_walk fs segs
   = map_option path_of (find (\<lambda>d. existsSync fs (join (path_of d) ''.git'')) (ancestors segs))"
proof (induction fs segs rule: findGitRoot_walk.induct)
  case (1 fs)
  then show ?case by (simp add: ancestors_Nil)
next
  case (2 fs seg segs)
  then show ?case using ancestors_step[of "seg # segs"] by simp
qed

text \<open>
  A directory that the walk probes is already in canonical form: hashing it lowers it
  and replaces its backslashes, and does not depend on the directory of the process.
\<close>

lemma ancestors_clean:
  assumes "d \<in> set (ancestors (resolve_segments pcwd paths))"
  shows "clean d"
proof -
  have "d \<in> set (prefixes (resolve_segments pcwd paths))"
    using assms unfolding ancestors_def by (auto dest: list.set_sel(2)[rotated])
  then have "set d \<subseteq> set (resolve_segments pcwd paths)"
    by (simp add: set_mono_prefix)
  then show ?thesis
    using resolve_segments_clean[of pcwd paths] unfolding clean_def by blast
qed

lemma hashPath_ancestor:
  assumes "d \<in> set (ancestors (resolve_segments pcwd paths))"
  shows "hashPath sha256 pcwd' (path_of d)
         = hashString sha256 (replace_backslashes (toLowerCase (path_of d)))"
  using resolve_resolved[OF ancestors_clean[OF assms]] by (simp add: hashPath_def resolve_def)

text \<open>The definitions that evaluate the resolver on a concrete file system.\<close>

lemmas resolver_eval =
  getProjectId_def detectProjectId_def findGitRoot_def findPackageJson_def
  resolve_segments_def resolve_def split_on_def existsSync_def readFileSync_def join_def
  path_of_def hashPath_def hashString_def toLowerCase_def replace_backslashes_def
  lower_char_def Let_def

lemma findGitRoot_nearest:
  assumes "find (\<lambda>d. existsSync fs (join (path_of d) ''.git''))
             (ancestors (resolve_segments pcwd [cwd])) = Some d"
  shows "findGitRoot fs pcwd cwd = Some (path_of d) \<and> path_of d \<noteq> []"
  using assms path_of_absolute[of d] by (simp add: findGitRoot_def findGitRoot_walk_find)

section \<open>Project isolation\<close>

text \<open>
  C1, as stated, fails: \<^verbatim>\<open>add\<close> stores \<^verbatim>\<open>memory.projectId || this.projectId\<close>, so a
  memory added through the instance of p1 with the field \<^verbatim>\<open>projectId\<close> set to p2 is a
  memory of p2, and the instance of p2 returns it.
\<close>

theorem isolation_override_counterexample:
  "add (stringify_by example_json) store_p1
       (example_memory (Some ''p2'') ''secret'' ''fact'' None None) 0 empty_database
     = (Inr 1, \<lparr>rows = [example_row 1 (Some ''p2'') ''secret'' ''fact''], seq = 1\<rparr>)
   \<and> get (parse_by example_json) store_p2 1
         \<lparr>rows = [example_row 1 (Some ''p2'') ''secret'' ''fact''], seq = 1\<rparr>
     = Inr (Some (example_result 1 (Some ''p2'') ''secret'' ''fact'' None None))"
  by (simp add: add_def insert_memories_def type_check_def next_rowid_def get_def
      rowToMemory_def project_filter_def store_p1_def store_p2_def example_memory_def
      example_row_def example_result_def empty_database_def
      rowid_exhausted_def MAX_ROWID_def)

text \<open>
  C1, amended. Let p1 and p2 be distinct, let the second instance be scoped to p2 and
  not global, and let a memory be added through an instance scoped to p1 without a
  \<^verbatim>\<open>projectId\<close> of its own equal to p2. Then \<^verbatim>\<open>get\<close> of the new id through the second
  instance finds nothing, exactly as for an id that does not exist, and every \<^verbatim>\<open>get\<close>,
  \<^verbatim>\<open>search\<close>, \<^verbatim>\<open>list\<close> and \<^verbatim>\<open>stats\<close> through the second instance gives what it gave
  before the memory was added.
\<close>

theorem project_isolation:
  assumes s2: "projectId s2 = Some p2" "p2 \<noteq> []" "\<not> globalMode s2"
    and s1: "projectId s1 = Some p1" "p1 \<noteq> p2"
    and m: "m_projectId memory \<noteq> Some p2"
    and a: "add stringify s1 memory now db = (Inr i, db')"
  shows "get parse s2 i db' = Inr None
       \<and> (\<forall>j. get parse s2 j db' = get parse s2 j db)
       \<and> (\<forall>query opts. search parse s2 query opts db' = search parse s2 query opts db)
       \<and> (\<forall>opts. list_memories parse s2 opts db' = list_memories parse s2 opts db)
       \<and> stats s2 db' = stats s2 db"
proof -
  from add_Inr[OF a] obtain row where
    i: "i = next_rowid db" and r: "rows db' = rows db @ [row]" "r_id row = i"
    and p: "r_project_id row =
              (if truthy_string (m_projectId memory) then m_projectId memory else projectId s1)"
    by blast
  have nf: "\<not> project_filter s2 row"
    using s2 s1 m p by (auto simp: project_filter_def)
  have g: "\<And>j. get parse s2 j db' = get parse s2 j db"
    using nf by (simp add: get_def r find_append_last split: option.splits)
  have "get parse s2 i db = Inr None"
    by (simp add: get_def i find_None_fresh)
  moreover have "\<And>query opts. search parse s2 query opts db' = search parse s2 query opts db"
    using nf by (simp add: search_def search_rows_def r)
  moreover have "\<And>opts. list_memories parse s2 opts db' = list_memories parse s2 opts db"
    using nf by (simp add: list_memories_def list_rows_def r)
  moreover have "stats s2 db' = stats s2 db"
    using nf by (simp add: stats_def r)
  ultimately show ?thesis using g by simp
qed

theorem project_isolation_witness:
  "get (parse_by example_json) store_p2 2
       \<lparr>rows = [example_row 1 (Some ''p2'') ''mine'' ''note'',
                example_row 2 (Some ''p1'') ''secret'' ''fact''], seq = 2\<rparr> = Inr None
   \<and> list_memories (parse_by example_json) store_p2 no_options
       \<lparr>rows = [example_row 1 (Some ''p2'') ''mine'' ''note'',
                example_row 2 (Some ''p1'') ''secret'' ''fact''], seq = 2\<rparr>
     = list_memories (parse_by example_json) store_p2 no_options
       \<lparr>rows = [example_row 1 (Some ''p2'') ''mine'' ''note''], seq = 1\<rparr>
   \<and> stats store_p2
       \<lparr>rows = [example_row 1 (Some ''p2'') ''mine'' ''note'',
                example_row 2 (Some ''p1'') ''secret'' ''fact''], seq = 2\<rparr>
     = stats store_p2 \<lparr>rows = [example_row 1 (Some ''p2'') ''mine'' ''note''], seq = 1\<rparr>"
proof -
  have s2: "projectId store_p2 = Some ''p2''" "''p2'' \<noteq> []" "\<not> globalMode store_p2"
    by (simp_all add: store_p2_def)
  have s1: "projectId store_p1 = Some ''p1''" "''p1'' \<noteq> ''p2''"
    by (simp_all add: store_p1_def)
  have m: "m_projectId (example_memory None ''secret'' ''fact'' None None) \<noteq> Some ''p2''"
    by (simp add: example_memory_def)
  have a: "add (stringify_by example_json) store_p1
             (example_memory None ''secret'' ''fact'' None None) 0
             \<lparr>rows = [example_row 1 (Some ''p2'') ''mine'' ''note''], seq = 1\<rparr>
           = (Inr 2, \<lparr>rows = [example_row 1 (Some ''p2'') ''mine'' ''note'',
                example_row 2 (Some ''p1'') ''secret'' ''fact''], seq = 2\<rparr>)"
    by (simp add: add_def insert_memories_def type_check_def next_rowid_def store_p1_def
        example_memory_def example_row_def rowid_exhausted_def MAX_ROWID_def)
  from project_isolation[OF s2 s1 m a, of "parse_by example_json"]
  show ?thesis by blast
qed

section \<open>The resolver and unusable manifests\<close>

text \<open>
  C2 says that \<^verbatim>\<open>getProjectId\<close> never raises and that a manifest which cannot be read
  or parsed counts as the name \<^verbatim>\<open>unknown\<close>. The code does not do this: with no
  version-control root above the directory and a nearest \<^verbatim>\<open>package.json\<close> that is not
  valid JSON, that cannot be read, that is a directory, or that holds \<^verbatim>\<open>null\<close>, the
  error of \<^verbatim>\<open>JSON.parse\<close>, of \<^verbatim>\<open>readFileSync\<close> or of the property access leaves
  \<^verbatim>\<open>getProjectId\<close>, and nothing is cached. (\<^verbatim>\<open>getProjectName\<close> wraps the same read in
  \<^verbatim>\<open>try\<close>.)
\<close>

theorem getProjectId_raises_on_unusable_manifest:
  "getProjectId sha256 (parse_by example_json) broken_manifest_fs ''/'' Map.empty ''/proj''
     = (Inl SyntaxError, Map.empty)
   \<and> getProjectId sha256 (parse_by example_json) broken_manifest_fs ''/'' Map.empty ''/locked''
     = (Inl FileReadError, Map.empty)
   \<and> getProjectId sha256 (parse_by example_json) broken_manifest_fs ''/'' Map.empty ''/dir/sub''
     = (Inl FileReadError, Map.empty)
   \<and> getProjectId sha256 (parse_by example_json) broken_manifest_fs ''/'' Map.empty ''/nil''
     = (Inl TypeError, Map.empty)"
  by (simp add: resolver_eval broken_manifest_fs_def parse_by_def example_json_def)

section \<open>Validation of the type\<close>

text \<open>
  C3, as stated, fails on a store whose id counter is exhausted: there the insert
  fails with \<^verbatim>\<open>SQLITE_FULL\<close> before the type is tested, so the error that \<^verbatim>\<open>add\<close>
  raises for an unrecognized type is not the one of the validation. (No row is
  inserted in this case either.)
\<close>

theorem add_validation_counterexample:
  "add (stringify_by example_json) store_p1
       (example_memory None ''x'' ''invalid-type'' None None) 7 exhausted_database
   = (Inl SQLiteError_FULL, exhausted_database)"
  by (simp add: add_def insert_memories_def rowid_exhausted_def MAX_ROWID_def
      exhausted_database_def)

text \<open>
  C3, amended. When the type of the input is not one of fact, decision, code, config
  and note, \<^verbatim>\<open>add\<close> throws and the database is unchanged: no row is inserted. The
  error is that of the \<^verbatim>\<open>CHECK\<close> constraint on the column (which is how the store
  reports an invalid value) on every store that has an id left, and \<^verbatim>\<open>SQLITE_FULL\<close>
  on a store whose id counter is exhausted.
\<close>

theorem add_rejects_unknown_type:
  assumes "m_type memory \<notin> {''fact'', ''decision'', ''code'', ''config'', ''note''}"
  shows "add stringify s memory now db
         = (Inl (if rowid_exhausted db then SQLiteError_FULL
                 else SQLiteError_CHECK_constraint_failed), db)"
  using assms by (simp add: add_def insert_memories_def type_check_def)

theorem add_rejects_unknown_type_witness:
  "add (stringify_by example_json) store_p1
       (example_memory None ''x'' ''invalid-type'' None None) 7
       \<lparr>rows = [example_row 1 (Some ''p1'') ''kept'' ''note''], seq = 3\<rparr>
   = (Inl SQLiteError_CHECK_constraint_failed,
      \<lparr>rows = [example_row 1 (Some ''p1'') ''kept'' ''note''], seq = 3\<rparr>)"
proof -
  have t: "m_type (example_memory None ''x'' ''invalid-type'' None None)
          \<notin> {''fact'', ''decision'', ''code'', ''config'', ''note''}"
    by (simp add: example_memory_def)
  have e: "\<not> rowid_exhausted \<lparr>rows = [example_row 1 (Some ''p1'') ''kept'' ''note''], seq = 3\<rparr>"
    by (simp add: rowid_exhausted_def MAX_ROWID_def example_row_def)
  from add_rejects_unknown_type[OF t] e show ?thesis by simp
qed

section \<open>Round trip of tags and metadata\<close>




section \<open>The global view\<close>

text \<open>
  C5, as stated, fails: a memory added in global mode has no project identifier
  (\<^verbatim>\<open>project_id\<close> is \<^verbatim>\<open>NULL\<close>); the global instance lists it and no instance scoped to
  an identifier present in the store does.
\<close>

theorem global_superset_counterexample:
  "add (stringify_by example_json) store_global
       (example_memory None ''shared'' ''note'' None None) 0 empty_database
     = (Inr 1, \<lparr>rows = [example_row 1 None ''shared'' ''note''], seq = 1\<rparr>)
   \<and> list_memories (parse_by example_json) store_global no_options
         \<lparr>rows = [example_row 1 None ''shared'' ''note''], seq = 1\<rparr>
     = Inr [example_result 1 None ''shared'' ''note'' None None]
   \<and> (\<Union>p \<in> fst ` set (getAllProjects \<lparr>rows = [example_row 1 None ''shared'' ''note''], seq = 1\<rparr>).
         visible (parse_by example_json) \<lparr>projectId = Some p, globalMode = False\<rparr> []
           \<lparr>rows = [example_row 1 None ''shared'' ''note''], seq = 1\<rparr>) = {}"
  by (simp add: add_def insert_memories_def type_check_def next_rowid_def list_memories_def
      list_rows_def limit_clause_def order_by_created_at_desc_def type_filter_def
      rowToMemory_def project_filter_def store_global_def example_memory_def example_row_def
      example_result_def empty_database_def no_options_def getAllProjects_def
      map_filter_simps rowid_exhausted_def MAX_ROWID_def)

text \<open>
  C5, amended. Whenever a search of a global instance succeeds (for any query; the
  listing is the search for the empty query), the set of memories it returns is the
  union, over the identifiers present in the store, of the sets that the instances
  scoped to them return for the same query, together with the memories that have no
  project identifier. The statistics of an instance count exactly the memories that
  its listing returns, in total and for each type.
\<close>

theorem global_view_is_union_with_unscoped:
  assumes g: "globalMode g" and gs: "search parse g query no_options db = Inr gs"
  shows "set gs = (\<Union>p \<in> fst ` set (getAllProjects db).
                     visible parse \<lparr>projectId = Some p, globalMode = False\<rparr> query db)
                  \<union> {m \<in> set gs. m_projectId m = None}
       \<and> (\<forall>s opts. list_memories parse s opts db = search parse s [] opts db)
       \<and> (\<forall>s ms. list_memories parse s no_options db = Inr ms \<longrightarrow>
             total (stats s db) = length ms
             \<and> (\<forall>t. byType (stats s db) t
                    = (if filter (\<lambda>m. m_type m = t) ms = [] then None
                       else Some (length (filter (\<lambda>m. m_type m = t) ms)))))"
proof -
  have G: "set gs = {m. \<exists>row \<in> set (rows db).
                      like ([CHR ''%''] @ query @ [CHR ''%'']) (r_content row)
                      \<and> rowToMemory parse row = Inr m}"
    using rowsToMemories_set[OF gs[unfolded search_def]] g
    by (auto simp: search_rows_set no_options_def project_filter_def type_filter_def)
  have 1: "set gs = (\<Union>p \<in> fst ` set (getAllProjects db).
                     visible parse \<lparr>projectId = Some p, globalMode = False\<rparr> query db)
                  \<union> {m \<in> set gs. m_projectId m = None}"
  proof (rule set_eqI, rule iffI)
    fix m assume "m \<in> set gs"
    then obtain row where row: "row \<in> set (rows db)"
        "like ([CHR ''%''] @ query @ [CHR ''%'']) (r_content row)"
        "rowToMemory parse row = Inr m"
      unfolding G by blast
    show "m \<in> (\<Union>p \<in> fst ` set (getAllProjects db).
                     visible parse \<lparr>projectId = Some p, globalMode = False\<rparr> query db)
                  \<union> {m \<in> set gs. m_projectId m = None}"
    proof (cases "r_project_id row")
      case None
      then have "m_projectId m = None" using rowToMemory_fields[OF row(3)] by simp
      then show ?thesis using \<open>m \<in> set gs\<close> by simp
    next
      case (Some p)
      then have "p \<in> fst ` set (getAllProjects db)"
        using row(1) unfolding getAllProjects_ids by (metis (mono_tags) image_eqI mem_Collect_eq)
      moreover have "project_filter \<lparr>projectId = Some p, globalMode = False\<rparr> row"
        using Some by (simp add: project_filter_def)
      then have "m \<in> visible parse \<lparr>projectId = Some p, globalMode = False\<rparr> query db"
        unfolding visible_scoped[OF g gs] using row by blast
      ultimately show ?thesis by blast
    qed
  next
    fix m assume "m \<in> (\<Union>p \<in> fst ` set (getAllProjects db).
                     visible parse \<lparr>projectId = Some p, globalMode = False\<rparr> query db)
                  \<union> {m \<in> set gs. m_projectId m = None}"
    then show "m \<in> set gs"
      unfolding visible_scoped[OF g gs] G by blast
  qed
  have 2: "\<forall>s opts. list_memories parse s opts db = search parse s [] opts db"
    by (simp add: list_is_search)
  have 3: "\<forall>s ms. list_memories parse s no_options db = Inr ms \<longrightarrow>
             total (stats s db) = length ms
             \<and> (\<forall>t. byType (stats s db) t
                    = (if filter (\<lambda>m. m_type m = t) ms = [] then None
                       else Some (length (filter (\<lambda>m. m_type m = t) ms))))"
    using stats_counts_listing by blast
  show ?thesis using 1 2 3 by blast
qed

theorem global_view_is_union_with_unscoped_witness:
  "set [example_result 1 (Some ''p1'') ''one'' ''fact'' None None,
        example_result 2 None ''shared'' ''note'' None None]
   = (\<Union>p \<in> fst ` set (getAllProjects
          \<lparr>rows = [example_row 1 (Some ''p1'') ''one'' ''fact'',
                   example_row 2 None ''shared'' ''note''], seq = 2\<rparr>).
        visible (parse_by example_json) \<lparr>projectId = Some p, globalMode = False\<rparr> []
          \<lparr>rows = [example_row 1 (Some ''p1'') ''one'' ''fact'',
                   example_row 2 None ''shared'' ''note''], seq = 2\<rparr>)
     \<union> {m \<in> set [example_result 1 (Some ''p1'') ''one'' ''fact'' None None,
                    example_result 2 None ''shared'' ''note'' None None]. m_projectId m = None}
   \<and> total (stats store_global
          \<lparr>rows = [example_row 1 (Some ''p1'') ''one'' ''fact'',
                   example_row 2 None ''shared'' ''note''], seq = 2\<rparr>) = 2"
proof -
  let ?db = "\<lparr>rows = [example_row 1 (Some ''p1'') ''one'' ''fact'',
                   example_row 2 None ''shared'' ''note''], seq = 2\<rparr>"
  let ?ms = "[example_result 1 (Some ''p1'') ''one'' ''fact'' None None,
               example_result 2 None ''shared'' ''note'' None None]"
  have g: "globalMode store_global" by (simp add: store_global_def)
  have gs: "search (parse_by example_json) store_global [] no_options ?db = Inr ?ms"
    by (simp add: search_def search_rows_def limit_clause_def
        order_by_created_at_desc_def type_filter_def rowToMemory_def project_filter_def
        store_global_def example_row_def example_result_def no_options_def)
  have l: "list_memories (parse_by example_json) store_global no_options ?db = Inr ?ms"
    by (simp add: list_memories_def list_rows_def limit_clause_def
        order_by_created_at_desc_def type_filter_def rowToMemory_def project_filter_def
        store_global_def example_row_def example_result_def no_options_def)
  note T = global_view_is_union_with_unscoped[OF g gs]
  from T have 1: "set ?ms
      = (\<Union>p \<in> fst ` set (getAllProjects ?db).
           visible (parse_by example_json) \<lparr>projectId = Some p, globalMode = False\<rparr> [] ?db)
        \<union> {m \<in> set ?ms. m_projectId m = None}"
    by (rule conjunct1)
  from T l have "total (stats store_global ?db) = length ?ms" by blast
  then have 2: "total (stats store_global ?db) = 2" by simp
  show ?thesis by (rule conjI) (rule 1, rule 2)
qed

section \<open>What \<^verbatim>\<open>search\<close> matches\<close>

text \<open>
  C6, as stated, fails twice. The query is put into a \<^verbatim>\<open>LIKE\<close> pattern as it is, so
  \<^verbatim>\<open>_\<close> and \<^verbatim>\<open>%\<close> in it are wildcards: the query \<^verbatim>\<open>a_c\<close> finds the content \<^verbatim>\<open>abc\<close>,
  which does not contain it. And a type option that is the empty string is not
  applied: the result then has memories of another type.
\<close>

theorem search_wildcard_counterexample:
  "search (parse_by example_json) store_p1 ''a_c'' no_options
       \<lparr>rows = [example_row 1 (Some ''p1'') ''abc'' ''fact''], seq = 1\<rparr>
     = Inr [example_result 1 (Some ''p1'') ''abc'' ''fact'' None None]
   \<and> \<not> contains_ci ''a_c'' ''abc''
   \<and> search (parse_by example_json) store_p1 '''' \<lparr>o_type = Some '''', o_limit = None\<rparr>
       \<lparr>rows = [example_row 1 (Some ''p1'') ''abc'' ''fact''], seq = 1\<rparr>
     = Inr [example_result 1 (Some ''p1'') ''abc'' ''fact'' None None]"
  by (simp add: search_def search_rows_def limit_clause_def order_by_created_at_desc_def
      type_filter_def rowToMemory_def project_filter_def store_p1_def example_row_def
      example_result_def no_options_def lower_char_def)

text \<open>
  C6, amended. Let \<^verbatim>\<open>search\<close> be called without a limit and succeed. A memory visible
  to the instance is in the result if and only if its content matches the pattern
  \<^verbatim>\<open>%query%\<close> of \<^verbatim>\<open>LIKE\<close> (in which \<^verbatim>\<open>%\<close> and \<^verbatim>\<open>_\<close> of the query are wildcards and
  the letters A to Z match without regard to case) and, when a type option that is
  not empty is given, its type is that type. For a query without \<^verbatim>\<open>%\<close> and \<^verbatim>\<open>_\<close> the
  pattern matches exactly the contents that contain the query as a substring without
  regard to the case of those letters; the empty query matches every content. When a
  type option that is not empty is given, every memory of the result has that type.
\<close>

theorem search_matches_like_pattern:
  assumes lim: "o_limit opts = None"
    and ms: "search parse s query opts db = Inr ms"
    and row: "row \<in> set (rows db)" "project_filter s row" "rowToMemory parse row = Inr m"
  shows "(m \<in> set ms \<longleftrightarrow>
            like ([CHR ''%''] @ query @ [CHR ''%'']) (m_content m)
            \<and> (truthy_string (o_type opts) \<longrightarrow> Some (m_type m) = o_type opts))
       \<and> (CHR ''%'' \<notin> set query \<and> CHR ''_'' \<notin> set query \<longrightarrow>
            like ([CHR ''%''] @ query @ [CHR ''%'']) (m_content m) = contains_ci query (m_content m))
       \<and> like ([CHR ''%''] @ [] @ [CHR ''%'']) (m_content m)
       \<and> (\<forall>m' \<in> set ms. truthy_string (o_type opts) \<longrightarrow> Some (m_type m') = o_type opts)"
proof -
  have S: "set ms = {m. \<exists>r \<in> set (rows db). like ([CHR ''%''] @ query @ [CHR ''%'']) (r_content r)
        \<and> project_filter s r \<and> type_filter opts r \<and> rowToMemory parse r = Inr m}"
    using rowsToMemories_set[OF ms[unfolded search_def]] by (auto simp: search_rows_set[OF lim])
  have f: "\<And>r m. rowToMemory parse r = Inr m \<Longrightarrow> r_content r = m_content m \<and> r_type r = m_type m"
    using rowToMemory_fields by simp
  have 1: "m \<in> set ms \<longleftrightarrow>
            like ([CHR ''%''] @ query @ [CHR ''%'']) (m_content m)
            \<and> (truthy_string (o_type opts) \<longrightarrow> Some (m_type m) = o_type opts)"
  proof
    assume "m \<in> set ms"
    then obtain r where "like ([CHR ''%''] @ query @ [CHR ''%'']) (r_content r)"
        "type_filter opts r" "rowToMemory parse r = Inr m"
      unfolding S by blast
    then show "like ([CHR ''%''] @ query @ [CHR ''%'']) (m_content m)
            \<and> (truthy_string (o_type opts) \<longrightarrow> Some (m_type m) = o_type opts)"
      using f[of r m] by (auto simp: type_filter_def split: if_splits)
  next
    assume "like ([CHR ''%''] @ query @ [CHR ''%'']) (m_content m)
            \<and> (truthy_string (o_type opts) \<longrightarrow> Some (m_type m) = o_type opts)"
    then have "like ([CHR ''%''] @ query @ [CHR ''%'']) (r_content row) \<and> type_filter opts row"
      using f[OF row(3)] by (auto simp: type_filter_def split: if_splits)
    then show "m \<in> set ms" unfolding S using row by blast
  qed
  have 2: "CHR ''%'' \<notin> set query \<and> CHR ''_'' \<notin> set query \<longrightarrow>
            like ([CHR ''%''] @ query @ [CHR ''%'']) (m_content m) = contains_ci query (m_content m)"
    using like_literal by blast
  have 3: "like ([CHR ''%''] @ [] @ [CHR ''%'']) (m_content m)"
    using like_literal[of "[]" "m_content m"] by (cases "m_content m") auto
  have 4: "\<forall>m' \<in> set ms. truthy_string (o_type opts) \<longrightarrow> Some (m_type m') = o_type opts"
    unfolding S using f by (auto simp: type_filter_def split: if_splits)
  show ?thesis using 1 2 3 4 by blast
qed

theorem search_matches_like_pattern_witness:
  "search (parse_by example_json) store_p1 ''SCRIPT'' \<lparr>o_type = Some ''fact'', o_limit = None\<rparr>
       \<lparr>rows = [example_row 1 (Some ''p1'') ''TypeScript is great'' ''fact'',
                example_row 2 (Some ''p1'') ''I like JavaScript'' ''note''], seq = 2\<rparr>
     = Inr [example_result 1 (Some ''p1'') ''TypeScript is great'' ''fact'' None None]
   \<and> example_result 1 (Some ''p1'') ''TypeScript is great'' ''fact'' None None
       \<in> set [example_result 1 (Some ''p1'') ''TypeScript is great'' ''fact'' None None]
   \<and> like ([CHR ''%''] @ ''SCRIPT'' @ [CHR ''%'']) ''TypeScript is great''
   \<and> contains_ci ''SCRIPT'' ''TypeScript is great''"
proof -
  let ?db = "\<lparr>rows = [example_row 1 (Some ''p1'') ''TypeScript is great'' ''fact'',
                example_row 2 (Some ''p1'') ''I like JavaScript'' ''note''], seq = 2\<rparr>"
  let ?opts = "\<lparr>o_type = Some ''fact'', o_limit = None\<rparr>"
  let ?m = "example_result 1 (Some ''p1'') ''TypeScript is great'' ''fact'' None None"
  have lim: "o_limit ?opts = None" by simp
  have ms: "search (parse_by example_json) store_p1 ''SCRIPT'' ?opts ?db = Inr [?m]"
    by (simp add: search_def search_rows_def limit_clause_def order_by_created_at_desc_def
        type_filter_def rowToMemory_def project_filter_def store_p1_def example_row_def
        example_result_def lower_char_def)
  have row: "example_row 1 (Some ''p1'') ''TypeScript is great'' ''fact'' \<in> set (rows ?db)"
    "project_filter store_p1 (example_row 1 (Some ''p1'') ''TypeScript is great'' ''fact'')"
    "rowToMemory (parse_by example_json)
       (example_row 1 (Some ''p1'') ''TypeScript is great'' ''fact'') = Inr ?m"
    by (simp_all add: rowToMemory_def project_filter_def store_p1_def example_row_def
        example_result_def)
  have q: "CHR ''%'' \<notin> set ''SCRIPT'' \<and> CHR ''_'' \<notin> set ''SCRIPT''" by simp
  from search_matches_like_pattern[OF lim ms row] q ms
  show ?thesis by (simp add: example_result_def)
qed

section \<open>The result of \<^verbatim>\<open>delete\<close>\<close>

text \<open>
  C7 says that \<^verbatim>\<open>delete\<close> reports whether a row was removed: \<^verbatim>\<open>false\<close> for an id that
  does not exist or that belongs to another project, \<^verbatim>\<open>true\<close> for an id of the scope.
  The documentation of the method says the same (it returns \<^verbatim>\<open>true\<close> if the deletion
  was successful), and the command-line caller prints that the memory was not found
  and exits with status 1 when the result is \<^verbatim>\<open>false\<close>. The code does not do this: it
  runs the statement and ends with \<^verbatim>\<open>return true\<close> on every path, without looking at
  the number of rows that the statement removed. On an empty store, and for an id
  that only a row of another project has, \<^verbatim>\<open>get\<close> finds nothing, \<^verbatim>\<open>delete\<close> removes
  nothing, and the result is \<^verbatim>\<open>true\<close>, the same as for an id of the scope whose row
  is removed.
\<close>

theorem delete_reports_true_for_missing_id:
  "get (parse_by example_json) store_p1 1 empty_database = Inr None
   \<and> delete store_p1 1 empty_database = (True, empty_database)
   \<and> get (parse_by example_json) store_p1 1
       \<lparr>rows = [example_row 1 (Some ''p2'') ''other'' ''fact'',
                example_row 2 (Some ''p1'') ''mine'' ''note''], seq = 2\<rparr> = Inr None
   \<and> delete store_p1 1
       \<lparr>rows = [example_row 1 (Some ''p2'') ''other'' ''fact'',
                example_row 2 (Some ''p1'') ''mine'' ''note''], seq = 2\<rparr>
     = (True, \<lparr>rows = [example_row 1 (Some ''p2'') ''other'' ''fact'',
                example_row 2 (Some ''p1'') ''mine'' ''note''], seq = 2\<rparr>)
   \<and> delete store_p1 2
       \<lparr>rows = [example_row 1 (Some ''p2'') ''other'' ''fact'',
                example_row 2 (Some ''p1'') ''mine'' ''note''], seq = 2\<rparr>
     = (True, \<lparr>rows = [example_row 1 (Some ''p2'') ''other'' ''fact''], seq = 2\<rparr>)"
  by (simp add: delete_def get_def project_filter_def store_p1_def example_row_def
      empty_database_def)

section \<open>The version-control root and the manifests\<close>

text \<open>
  C8, as stated, fails in two ways. The walk stops when it reaches the root directory
  and never probes it, so a marker in the root is not found: from \<^verbatim>\<open>/src\<close> the
  identifier is the hash of \<^verbatim>\<open>/src\<close>, not of \<^verbatim>\<open>/\<close>. And an identifier cached for the
  directory is returned as it is: \<^verbatim>\<open>/repo/packages/web\<close>, resolved through its manifest
  before \<^verbatim>\<open>/repo\<close> got its marker, keeps that identifier afterwards. (The digests are
  those of SHA-256.)
\<close>

theorem git_root_counterexample:
  "existsSync root_marker_fs (join ''/'' ''.git'')
   \<and> fst (getProjectId (digest_by example_sha256) (parse_by example_json) root_marker_fs ''/''
           Map.empty ''/src'') = Inr ''56c9e1c4b5360a5b''
   \<and> hashPath (digest_by example_sha256) ''/'' ''/'' = ''8a5edab282632443''
   \<and> getProjectId_calls (digest_by example_sha256) (parse_by example_json) monorepo_fs ''/''
        (snd (getProjectId (digest_by example_sha256) (parse_by example_json) packages_only_fs
               ''/'' Map.empty ''/repo/packages/web''))
        [''/repo/packages/web''] = [Inr ''d3d3b7a2523fafde'']
   \<and> hashPath (digest_by example_sha256) ''/'' ''/repo'' = ''816fc349d3faebf8''"
  by (simp add: resolver_eval digest_by_def example_sha256_def root_marker_fs_def
      monorepo_fs_def packages_only_fs_def parse_by_def example_json_def)

text \<open>
  C8, amended. When nothing is cached for the starting directory and the directory
  itself or one of its ancestors below the root contains the marker, \<^verbatim>\<open>getProjectId\<close>
  returns (and caches) the hash of the canonical path of the nearest such directory,
  whatever manifests there are. With the marker at \<^verbatim>\<open>/repo\<close> and manifests at
  \<^verbatim>\<open>/repo/packages/web\<close> and \<^verbatim>\<open>/repo/packages/api\<close>, successive calls for the two
  packages and for \<^verbatim>\<open>/repo\<close>, starting with an empty cache, all return the hash of
  \<^verbatim>\<open>/repo\<close>.
\<close>

theorem git_root_outranks_manifest:
  assumes miss: "cache cwd = None"
    and near: "find (\<lambda>d. existsSync fs (join (path_of d) ''.git''))
             (ancestors (resolve_segments pcwd [cwd])) = Some d"
  shows "getProjectId sha256 parse fs pcwd cache cwd
           = (Inr (hashPath sha256 pcwd (path_of d)),
              cache(cwd \<mapsto> hashPath sha256 pcwd (path_of d)))
       \<and> getProjectId_calls sha256 parse monorepo_fs ''/'' Map.empty
           [''/repo/packages/web'', ''/repo/packages/api'', ''/repo'']
           = [Inr (hashPath sha256 ''/'' ''/repo''), Inr (hashPath sha256 ''/'' ''/repo''),
              Inr (hashPath sha256 ''/'' ''/repo'')]"
proof -
  have 1: "getProjectId sha256 parse fs pcwd cache cwd
           = (Inr (hashPath sha256 pcwd (path_of d)),
              cache(cwd \<mapsto> hashPath sha256 pcwd (path_of d)))"
    using miss findGitRoot_nearest[OF near]
    by (simp add: getProjectId_def detectProjectId_def)
  have w: "findGitRoot monorepo_fs ''/'' ''/repo/packages/web'' = Some ''/repo''"
    and a: "findGitRoot monorepo_fs ''/'' ''/repo/packages/api'' = Some ''/repo''"
    and r: "findGitRoot monorepo_fs ''/'' ''/repo'' = Some ''/repo''"
    by (simp_all add: findGitRoot_def resolve_segments_def split_on_def existsSync_def
        join_def path_of_def monorepo_fs_def)
  have 2: "getProjectId_calls sha256 parse monorepo_fs ''/'' Map.empty
           [''/repo/packages/web'', ''/repo/packages/api'', ''/repo'']
           = [Inr (hashPath sha256 ''/'' ''/repo''), Inr (hashPath sha256 ''/'' ''/repo''),
              Inr (hashPath sha256 ''/'' ''/repo'')]"
    by (simp add: getProjectId_def detectProjectId_def w a r)
  show ?thesis using 1 2 by simp
qed

theorem git_root_outranks_manifest_witness:
  "fst (getProjectId (digest_by example_sha256) (parse_by example_json) monorepo_fs ''/''
         Map.empty ''/repo/packages/web'') = Inr ''816fc349d3faebf8''"
proof -
  have miss: "Map.empty ''/repo/packages/web'' = (None :: string option)" by simp
  have near: "find (\<lambda>d. existsSync monorepo_fs (join (path_of d) ''.git''))
             (ancestors (resolve_segments ''/'' [''/repo/packages/web''])) = Some [''repo'']"
    by (simp add: ancestors_def resolve_segments_def split_on_def existsSync_def join_def
        path_of_def monorepo_fs_def)
  have h: "hashPath (digest_by example_sha256) ''/'' (path_of [''repo'']) = ''816fc349d3faebf8''"
    by (simp add: resolver_eval digest_by_def example_sha256_def)
  from git_root_outranks_manifest[OF miss near, of "digest_by example_sha256"
         "parse_by example_json"] h
  show ?thesis by simp
qed

section \<open>What is hashed\<close>

text \<open>
  C9 says that every identifier, whichever strategy produces it, is the hash of a
  string that was lowered and whose separators were normalized. The code does this
  in \<^verbatim>\<open>hashPath\<close>, which the first and third strategies call; the second strategy
  passes \<^verbatim>\<open>name:manifestPath\<close> to \<^verbatim>\<open>hashString\<close> directly. With a manifest named
  \<^verbatim>\<open>MyApp\<close> in \<^verbatim>\<open>/Proj\<close> the string hashed keeps its capitals, while the same
  directory without a manifest is hashed as \<^verbatim>\<open>/proj\<close>.
\<close>

theorem manifest_identifier_is_not_normalized:
  "detectProjectId sha256 (parse_by example_json) capitals_fs ''/'' ''/Proj''
     = Inr (hashString sha256 ''MyApp:/Proj/package.json'')
   \<and> replace_backslashes (toLowerCase ''MyApp:/Proj/package.json'')
       = ''myapp:/proj/package.json''
   \<and> detectProjectId sha256 (parse_by example_json) Map.empty ''/'' ''/Proj''
     = Inr (hashString sha256 ''/proj'')"
  by (simp add: resolver_eval capitals_fs_def parse_by_def example_json_def)

section \<open>Zero limit\<close>

text \<open>
  C10. For \<^verbatim>\<open>search\<close> and \<^verbatim>\<open>list\<close>, a limit of 0 is the same as no limit: the
  result is the one obtained with the option absent, and it has every matching row.
  With a limit of 0, \<^verbatim>\<open>search\<close> and \<^verbatim>\<open>list\<close> return the conversion of all the rows
  that match, the newest first; a result they return has as many memories as there
  are matching rows, one for each of them in that order, and is not empty when a
  row matches; and they return a result whenever every matching row can be
  converted. A ceiling applies when the limit is not zero: with a limit of 1 + k the
  result has at most 1 + k memories.
\<close>

theorem limit_zero_is_no_limit:
  "search parse s query \<lparr>o_type = ty, o_limit = Some 0\<rparr> db
     = search parse s query \<lparr>o_type = ty, o_limit = None\<rparr> db
   \<and> list_memories parse s \<lparr>o_type = ty, o_limit = Some 0\<rparr> db
     = list_memories parse s \<lparr>o_type = ty, o_limit = None\<rparr> db
   \<and> search parse s query \<lparr>o_type = ty, o_limit = Some 0\<rparr> db
     = rowsToMemories parse (order_by_created_at_desc
         (filter (\<lambda>row. like ([CHR ''%''] @ query @ [CHR ''%'']) (r_content row)
                         \<and> project_filter s row
                         \<and> type_filter \<lparr>o_type = ty, o_limit = Some 0\<rparr> row) (rows db)))
   \<and> list_memories parse s \<lparr>o_type = ty, o_limit = Some 0\<rparr> db
     = rowsToMemories parse (order_by_created_at_desc
         (filter (\<lambda>row. project_filter s row
                         \<and> type_filter \<lparr>o_type = ty, o_limit = Some 0\<rparr> row) (rows db)))
   \<and> (\<forall>ms. search parse s query \<lparr>o_type = ty, o_limit = Some 0\<rparr> db = Inr ms \<longrightarrow>
         length ms
           = length (filter (\<lambda>row. like ([CHR ''%''] @ query @ [CHR ''%'']) (r_content row)
                       \<and> project_filter s row
                       \<and> type_filter \<lparr>o_type = ty, o_limit = Some 0\<rparr> row) (rows db))
         \<and> map Inr ms
           = map (rowToMemory parse) (order_by_created_at_desc
               (filter (\<lambda>row. like ([CHR ''%''] @ query @ [CHR ''%'']) (r_content row)
                       \<and> project_filter s row
                       \<and> type_filter \<lparr>o_type = ty, o_limit = Some 0\<rparr> row) (rows db)))
         \<and> ((\<exists>row \<in> set (rows db).
                like ([CHR ''%''] @ query @ [CHR ''%'']) (r_content row)
                \<and> project_filter s row
                \<and> type_filter \<lparr>o_type = ty, o_limit = Some 0\<rparr> row) \<longrightarrow> ms \<noteq> []))
   \<and> (\<forall>ms. list_memories parse s \<lparr>o_type = ty, o_limit = Some 0\<rparr> db = Inr ms \<longrightarrow>
         length ms
           = length (filter (\<lambda>row. project_filter s row
                       \<and> type_filter \<lparr>o_type = ty, o_limit = Some 0\<rparr> row) (rows db))
         \<and> map Inr ms
           = map (rowToMemory parse) (order_by_created_at_desc
               (filter (\<lambda>row. project_filter s row
                       \<and> type_filter \<lparr>o_type = ty, o_limit = Some 0\<rparr> row) (rows db)))
         \<and> ((\<exists>row \<in> set (rows db).
                project_filter s row
                \<and> type_filter \<lparr>o_type = ty, o_limit = Some 0\<rparr> row) \<longrightarrow> ms \<noteq> []))
   \<and> ((\<forall>row \<in> set (rows db).
          like ([CHR ''%''] @ query @ [CHR ''%'']) (r_content row) \<and> project_filter s row
          \<and> type_filter \<lparr>o_type = ty, o_limit = Some 0\<rparr> row
          \<longrightarrow> (\<exists>m. rowToMemory parse row = Inr m))
       \<longrightarrow> (\<exists>ms. search parse s query \<lparr>o_type = ty, o_limit = Some 0\<rparr> db = Inr ms))
   \<and> ((\<forall>row \<in> set (rows db).
          project_filter s row \<and> type_filter \<lparr>o_type = ty, o_limit = Some 0\<rparr> row
          \<longrightarrow> (\<exists>m. rowToMemory parse row = Inr m))
       \<longrightarrow> (\<exists>ms. list_memories parse s \<lparr>o_type = ty, o_limit = Some 0\<rparr> db = Inr ms))
   \<and> (\<forall>ms. search parse s query \<lparr>o_type = ty, o_limit = Some (1 + int k)\<rparr> db = Inr ms
         \<longrightarrow> length ms \<le> Suc k)
   \<and> (\<forall>ms. list_memories parse s \<lparr>o_type = ty, o_limit = Some (1 + int k)\<rparr> db = Inr ms
         \<longrightarrow> length ms \<le> Suc k)
   \<and> length (search_rows s query \<lparr>o_type = ty, o_limit = Some 0\<rparr> db)
     = length (filter (\<lambda>row. like ([CHR ''%''] @ query @ [CHR ''%'']) (r_content row)
                       \<and> project_filter s row
                       \<and> type_filter \<lparr>o_type = ty, o_limit = Some 0\<rparr> row) (rows db))
   \<and> length (list_rows s \<lparr>o_type = ty, o_limit = Some 0\<rparr> db)
     = length (filter (\<lambda>row. project_filter s row
                       \<and> type_filter \<lparr>o_type = ty, o_limit = Some 0\<rparr> row) (rows db))
   \<and> length (search_rows s query \<lparr>o_type = ty, o_limit = Some (1 + int k)\<rparr> db) \<le> Suc k
   \<and> length (list_rows s \<lparr>o_type = ty, o_limit = Some (1 + int k)\<rparr> db) \<le> Suc k"
proof -
  let ?z = "\<lparr>o_type = ty, o_limit = Some 0\<rparr>"
  let ?k = "\<lparr>o_type = ty, o_limit = Some (1 + int k)\<rparr>"
  let ?P = "\<lambda>row. like ([CHR ''%''] @ query @ [CHR ''%'']) (r_content row)
                       \<and> project_filter s row \<and> type_filter ?z row"
  let ?Q = "\<lambda>row. project_filter s row \<and> type_filter ?z row"
  have n: "nat (1 + int k) = Suc k" by simp
  have sr: "search_rows s query ?z db = order_by_created_at_desc (filter ?P (rows db))"
    by (simp add: search_rows_def limit_clause_def)
  have lr: "list_rows s ?z db = order_by_created_at_desc (filter ?Q (rows db))"
    by (simp add: list_rows_def limit_clause_def)
  have sn: "search_rows s query ?z db = search_rows s query \<lparr>o_type = ty, o_limit = None\<rparr> db"
    by (simp add: search_rows_def limit_clause_def type_filter_def)
  have ln: "list_rows s ?z db = list_rows s \<lparr>o_type = ty, o_limit = None\<rparr> db"
    by (simp add: list_rows_def limit_clause_def type_filter_def)
  have sk: "length (search_rows s query ?k db) \<le> Suc k"
    by (simp add: search_rows_def limit_clause_def n)
  have lk: "length (list_rows s ?k db) \<le> Suc k"
    by (simp add: list_rows_def limit_clause_def n)
  have c1: "search parse s query ?z db
              = search parse s query \<lparr>o_type = ty, o_limit = None\<rparr> db"
    by (simp add: search_def sn)
  have c2: "list_memories parse s ?z db
              = list_memories parse s \<lparr>o_type = ty, o_limit = None\<rparr> db"
    by (simp add: list_memories_def ln)
  have c3: "search parse s query ?z db
              = rowsToMemories parse (order_by_created_at_desc (filter ?P (rows db)))"
    by (simp only: search_def sr)
  have c4: "list_memories parse s ?z db
              = rowsToMemories parse (order_by_created_at_desc (filter ?Q (rows db)))"
    by (simp only: list_memories_def lr)
  have c5: "\<forall>ms. search parse s query ?z db = Inr ms \<longrightarrow>
         length ms = length (filter ?P (rows db))
         \<and> map Inr ms
           = map (rowToMemory parse) (order_by_created_at_desc (filter ?P (rows db)))
         \<and> ((\<exists>row \<in> set (rows db). ?P row) \<longrightarrow> ms \<noteq> [])"
  proof (intro allI impI)
    fix ms assume "search parse s query ?z db = Inr ms"
    then have r: "rowsToMemories parse (order_by_created_at_desc (filter ?P (rows db))) = Inr ms"
      by (simp only: c3)
    have l: "length ms = length (filter ?P (rows db))"
      using rowsToMemories_length[OF r] by (simp add: order_by_created_at_desc_def)
    have "(\<exists>row \<in> set (rows db). ?P row) \<longrightarrow> filter ?P (rows db) \<noteq> []"
      by (auto simp: filter_empty_conv)
    then have "(\<exists>row \<in> set (rows db). ?P row) \<longrightarrow> length ms \<noteq> 0"
      by (simp only: l length_0_conv)
    then have "(\<exists>row \<in> set (rows db). ?P row) \<longrightarrow> ms \<noteq> []"
      by (simp only: length_0_conv)
    then show "length ms = length (filter ?P (rows db))
         \<and> map Inr ms
           = map (rowToMemory parse) (order_by_created_at_desc (filter ?P (rows db)))
         \<and> ((\<exists>row \<in> set (rows db). ?P row) \<longrightarrow> ms \<noteq> [])"
      using l rowsToMemories_map[OF r, symmetric] by (intro conjI)
  qed
  have c6: "\<forall>ms. list_memories parse s ?z db = Inr ms \<longrightarrow>
         length ms = length (filter ?Q (rows db))
         \<and> map Inr ms
           = map (rowToMemory parse) (order_by_created_at_desc (filter ?Q (rows db)))
         \<and> ((\<exists>row \<in> set (rows db). ?Q row) \<longrightarrow> ms \<noteq> [])"
  proof (intro allI impI)
    fix ms assume "list_memories parse s ?z db = Inr ms"
    then have r: "rowsToMemories parse (order_by_created_at_desc (filter ?Q (rows db))) = Inr ms"
      by (simp only: c4)
    have l: "length ms = length (filter ?Q (rows db))"
      using rowsToMemories_length[OF r] by (simp add: order_by_created_at_desc_def)
    have "(\<exists>row \<in> set (rows db). ?Q row) \<longrightarrow> filter ?Q (rows db) \<noteq> []"
      by (auto simp: filter_empty_conv)
    then have "(\<exists>row \<in> set (rows db). ?Q row) \<longrightarrow> length ms \<noteq> 0"
      by (simp only: l length_0_conv)
    then have "(\<exists>row \<in> set (rows db). ?Q row) \<longrightarrow> ms \<noteq> []"
      by (simp only: length_0_conv)
    then show "length ms = length (filter ?Q (rows db))
         \<and> map Inr ms
           = map (rowToMemory parse) (order_by_created_at_desc (filter ?Q (rows db)))
         \<and> ((\<exists>row \<in> set (rows db). ?Q row) \<longrightarrow> ms \<noteq> [])"
      using l rowsToMemories_map[OF r, symmetric] by (intro conjI)
  qed
  have c7: "(\<forall>row \<in> set (rows db). ?P row \<longrightarrow> (\<exists>m. rowToMemory parse row = Inr m))
       \<longrightarrow> (\<exists>ms. search parse s query ?z db = Inr ms)"
  proof
    assume a: "\<forall>row \<in> set (rows db). ?P row \<longrightarrow> (\<exists>m. rowToMemory parse row = Inr m)"
    have "\<exists>ms. rowsToMemories parse (order_by_created_at_desc (filter ?P (rows db))) = Inr ms"
    proof (rule rowsToMemories_total)
      fix r assume "r \<in> set (order_by_created_at_desc (filter ?P (rows db)))"
      then have "r \<in> set (rows db) \<and> ?P r" by (simp add: order_by_created_at_desc_def)
      then show "\<exists>m. rowToMemory parse r = Inr m" using a by blast
    qed
    then show "\<exists>ms. search parse s query ?z db = Inr ms" by (simp only: c3)
  qed
  have c8: "(\<forall>row \<in> set (rows db). ?Q row \<longrightarrow> (\<exists>m. rowToMemory parse row = Inr m))
       \<longrightarrow> (\<exists>ms. list_memories parse s ?z db = Inr ms)"
  proof
    assume a: "\<forall>row \<in> set (rows db). ?Q row \<longrightarrow> (\<exists>m. rowToMemory parse row = Inr m)"
    have "\<exists>ms. rowsToMemories parse (order_by_created_at_desc (filter ?Q (rows db))) = Inr ms"
    proof (rule rowsToMemories_total)
      fix r assume "r \<in> set (order_by_created_at_desc (filter ?Q (rows db)))"
      then have "r \<in> set (rows db) \<and> ?Q r" by (simp add: order_by_created_at_desc_def)
      then show "\<exists>m. rowToMemory parse r = Inr m" using a by blast
    qed
    then show "\<exists>ms. list_memories parse s ?z db = Inr ms" by (simp only: c4)
  qed
  have c9: "\<forall>ms. search parse s query ?k db = Inr ms \<longrightarrow> length ms \<le> Suc k"
  proof (intro allI impI)
    fix ms assume "search parse s query ?k db = Inr ms"
    then have "rowsToMemories parse (search_rows s query ?k db) = Inr ms"
      by (simp only: search_def)
    from rowsToMemories_length[OF this] sk show "length ms \<le> Suc k" by simp
  qed
  have c10: "\<forall>ms. list_memories parse s ?k db = Inr ms \<longrightarrow> length ms \<le> Suc k"
  proof (intro allI impI)
    fix ms assume "list_memories parse s ?k db = Inr ms"
    then have "rowsToMemories parse (list_rows s ?k db) = Inr ms"
      by (simp only: list_memories_def)
    from rowsToMemories_length[OF this] lk show "length ms \<le> Suc k" by simp
  qed
  have c11: "length (search_rows s query ?z db) = length (filter ?P (rows db))"
    by (simp add: sr order_by_created_at_desc_def)
  have c12: "length (list_rows s ?z db) = length (filter ?Q (rows db))"
    by (simp add: lr order_by_created_at_desc_def)
  show ?thesis
    by (intro conjI) (rule c1 c2 c3 c4 c5 c6 c7 c8 c9 c10 c11 c12 sk lk)+
qed

theorem limit_zero_is_no_limit_witness:
  "search (parse_by example_json) store_p1 ''script'' \<lparr>o_type = None, o_limit = Some 0\<rparr>
       \<lparr>rows = [example_row 1 (Some ''p1'') ''TypeScript is great'' ''fact'',
                example_row 2 (Some ''p1'') ''I like JavaScript'' ''note'',
                example_row 3 (Some ''p1'') ''Rust'' ''note''], seq = 3\<rparr>
     = Inr [example_result 1 (Some ''p1'') ''TypeScript is great'' ''fact'' None None,
            example_result 2 (Some ''p1'') ''I like JavaScript'' ''note'' None None]
   \<and> search (parse_by example_json) store_p1 ''script'' \<lparr>o_type = None, o_limit = None\<rparr>
       \<lparr>rows = [example_row 1 (Some ''p1'') ''TypeScript is great'' ''fact'',
                example_row 2 (Some ''p1'') ''I like JavaScript'' ''note'',
                example_row 3 (Some ''p1'') ''Rust'' ''note''], seq = 3\<rparr>
     = Inr [example_result 1 (Some ''p1'') ''TypeScript is great'' ''fact'' None None,
            example_result 2 (Some ''p1'') ''I like JavaScript'' ''note'' None None]
   \<and> length (filter (\<lambda>row. like ([CHR ''%''] @ ''script'' @ [CHR ''%'']) (r_content row)
                       \<and> project_filter store_p1 row
                       \<and> type_filter \<lparr>o_type = None, o_limit = Some 0\<rparr> row)
               [example_row 1 (Some ''p1'') ''TypeScript is great'' ''fact'',
                example_row 2 (Some ''p1'') ''I like JavaScript'' ''note'',
                example_row 3 (Some ''p1'') ''Rust'' ''note'']) = 2
   \<and> list_memories (parse_by example_json) store_p1 \<lparr>o_type = None, o_limit = Some 0\<rparr>
       \<lparr>rows = [example_row 1 (Some ''p1'') ''TypeScript is great'' ''fact'',
                example_row 2 (Some ''p1'') ''I like JavaScript'' ''note'',
                example_row 3 (Some ''p1'') ''Rust'' ''note''], seq = 3\<rparr>
     = Inr [example_result 1 (Some ''p1'') ''TypeScript is great'' ''fact'' None None,
            example_result 2 (Some ''p1'') ''I like JavaScript'' ''note'' None None,
            example_result 3 (Some ''p1'') ''Rust'' ''note'' None None]
   \<and> search (parse_by example_json) store_p1 ''script'' \<lparr>o_type = None, o_limit = Some 1\<rparr>
       \<lparr>rows = [example_row 1 (Some ''p1'') ''TypeScript is great'' ''fact'',
                example_row 2 (Some ''p1'') ''I like JavaScript'' ''note'',
                example_row 3 (Some ''p1'') ''Rust'' ''note''], seq = 3\<rparr>
     = Inr [example_result 1 (Some ''p1'') ''TypeScript is great'' ''fact'' None None]"
proof -
  let ?db = "\<lparr>rows = [example_row 1 (Some ''p1'') ''TypeScript is great'' ''fact'',
                example_row 2 (Some ''p1'') ''I like JavaScript'' ''note'',
                example_row 3 (Some ''p1'') ''Rust'' ''note''], seq = 3\<rparr>"
  let ?m1 = "example_result 1 (Some ''p1'') ''TypeScript is great'' ''fact'' None None"
  let ?m2 = "example_result 2 (Some ''p1'') ''I like JavaScript'' ''note'' None None"
  let ?m3 = "example_result 3 (Some ''p1'') ''Rust'' ''note'' None None"
  note T = limit_zero_is_no_limit[of "parse_by example_json" store_p1 "''script''" None ?db 0]
  have s: "search (parse_by example_json) store_p1 ''script''
             \<lparr>o_type = None, o_limit = Some 0\<rparr> ?db = Inr [?m1, ?m2]"
    by (simp add: search_def search_rows_def limit_clause_def order_by_created_at_desc_def
        type_filter_def rowToMemory_def project_filter_def store_p1_def example_row_def
        example_result_def lower_char_def)
  have l: "list_memories (parse_by example_json) store_p1
             \<lparr>o_type = None, o_limit = Some 0\<rparr> ?db = Inr [?m1, ?m2, ?m3]"
    by (simp add: list_memories_def list_rows_def limit_clause_def order_by_created_at_desc_def
        type_filter_def rowToMemory_def project_filter_def store_p1_def example_row_def
        example_result_def)
  have o: "search (parse_by example_json) store_p1 ''script''
             \<lparr>o_type = None, o_limit = Some 1\<rparr> ?db = Inr [?m1]"
    by (simp add: search_def search_rows_def limit_clause_def order_by_created_at_desc_def
        type_filter_def rowToMemory_def project_filter_def store_p1_def example_row_def
        example_result_def lower_char_def)
  have n: "search (parse_by example_json) store_p1 ''script''
             \<lparr>o_type = None, o_limit = None\<rparr> ?db = Inr [?m1, ?m2]"
    using T[THEN conjunct1] s by simp
  have c: "length (filter (\<lambda>row. like ([CHR ''%''] @ ''script'' @ [CHR ''%'']) (r_content row)
                       \<and> project_filter store_p1 row
                       \<and> type_filter \<lparr>o_type = None, o_limit = Some 0\<rparr> row) (rows ?db)) = 2"
    using T[THEN conjunct2, THEN conjunct2, THEN conjunct2, THEN conjunct2, THEN conjunct1,
        THEN spec, THEN mp, OF s, THEN conjunct1] by simp
  show ?thesis using s n c l o by simp
qed

end
